theory Spec2Isabelle
  imports Complex_Main
begin

section \<open>Time values\<close>

text \<open>
  Go's \<^verbatim>\<open>time.Time\<close> is modelled by the instant it denotes, in nanoseconds since the
  zero time (January 1, year 1, 00:00:00 UTC), together with the offset of its location
  in seconds east of UTC. A \<^verbatim>\<open>time.Duration\<close> is a number of nanoseconds.
  \<^verbatim>\<open>IsZero\<close>, \<^verbatim>\<open>After\<close> and \<^verbatim>\<open>Add\<close> look at the instant only, as in Go.
  Instants are unbounded integers: the range limits of \<^verbatim>\<open>time.Time\<close> are not modelled.
\<close>

record Time =
  nsec :: int
  zone_offset :: int

definition IsZero :: "Time \<Rightarrow> bool" where
  "IsZero t = (nsec t = 0)"

definition After :: "Time \<Rightarrow> Time \<Rightarrow> bool" where
  "After t u = (nsec t > nsec u)"

definition Add :: "Time \<Rightarrow> int \<Rightarrow> Time" where
  "Add t d = t\<lparr>nsec := nsec t + d\<rparr>"

text \<open>
  The civil date of a time in its own location (proleptic Gregorian calendar), as
  \<^verbatim>\<open>Time.Date\<close> of the standard library computes it: \<open>(year, month, day)\<close>.
\<close>

definition civil_date :: "Time \<Rightarrow> int \<times> int \<times> int" where
  "civil_date t =
     (let days = (nsec t + zone_offset t * 1000000000) div 86400000000000;
          z = days + 306;
          era = z div 146097;
          doe = z mod 146097;
          yoe = (doe - doe div 1460 + doe div 36524 - doe div 146096) div 365;
          doy = doe - (365 * yoe + yoe div 4 - yoe div 100);
          mp = (5 * doy + 2) div 153;
          d = doy - (153 * mp + 2) div 5 + 1;
          m = (if mp < 10 then mp + 3 else mp - 9);
          y = yoe + era * 400 + (if m \<le> 2 then 1 else 0)
      in (y, m, d))"

text \<open>Decimal digits of a natural number, most significant first.\<close>

fun digits10 :: "nat \<Rightarrow> string" where
  "digits10 n =
     (if n < 10 then [''0123456789'' ! n]
      else digits10 (n div 10) @ [''0123456789'' ! (n mod 10)])"

declare digits10.simps [simp del]

text \<open>
  \<^verbatim>\<open>appendInt(b, x, width)\<close> of package \<^verbatim>\<open>time\<close>: a minus sign for a negative number,
  then the digits padded with zeros to the width.
\<close>

definition appendInt :: "int \<Rightarrow> nat \<Rightarrow> string" where
  "appendInt x width =
     (let ds = digits10 (nat \<bar>x\<bar>)
      in (if x < 0 then ''-'' else '''') @ replicate (width - length ds) CHR ''0'' @ ds)"

text \<open>\<^verbatim>\<open>t.Format("02-01-2006")\<close>: two-digit day, two-digit month, four-digit year.\<close>

definition Format_02_01_2006 :: "Time \<Rightarrow> string" where
  "Format_02_01_2006 t =
     (case civil_date t of (y, m, d) \<Rightarrow>
        appendInt d 2 @ ''-'' @ appendInt m 2 @ ''-'' @ appendInt y 4)"

section \<open>Request parameters (package api)\<close>

record PrayerTimesParams =
  Latitude :: real
  Longitude :: real
  Address :: string
  Date :: Time
  Method :: int
  School :: int
  Timezone :: string
  Language :: string
  Adjustment :: int
  ISO8601 :: bool
  Qibla :: bool

text \<open>
  \<^verbatim>\<open>func (p *PrayerTimesParams) GetDateString() string\<close>. The receiver is a pointer:
  the model returns the receiver as the call leaves it, beside the result. \<open>now\<close> is
  what \<^verbatim>\<open>time.Now()\<close> returns if it is called.
\<close>

definition GetDateString :: "PrayerTimesParams \<Rightarrow> Time \<Rightarrow> string \<times> PrayerTimesParams" where
  "GetDateString p now =
     (let p' = (if IsZero (Date p) then p\<lparr>Date := now\<rparr> else p)
      in (Format_02_01_2006 (Date p'), p'))"

text \<open>
  Parameters as \<^verbatim>\<open>PrayerTimesParams{Latitude: 30.5, Longitude: 31.25, Method: 5, Language: "en"}\<close>
  (no date), and two readings of the clock: 15 January 2024, 12:30 at UTC+2, and
  1 March 2024, 00:00:05 UTC.
\<close>

definition params_no_date :: PrayerTimesParams where
  "params_no_date =
     \<lparr>Latitude = 30.5, Longitude = 31.25, Address = '''',
      Date = \<lparr>nsec = 0, zone_offset = 0\<rparr>, Method = 5, School = 0, Timezone = '''',
      Language = ''en'', Adjustment = 0, ISO8601 = False, Qibla = False\<rparr>"

definition jan_15_2024 :: Time where
  "jan_15_2024 = \<lparr>nsec = 738899 * 86400000000000 + 37800000000000, zone_offset = 7200\<rparr>"

definition mar_1_2024 :: Time where
  "mar_1_2024 = \<lparr>nsec = 738945 * 86400000000000 + 5000000000, zone_offset = 0\<rparr>"

section \<open>Errors\<close>

text \<open>
  Go errors as values. \<open>Transport\<close> is an error raised by the standard library
  (net/http, io, os, encoding/json), known by its message; \<open>Wrapped\<close> is
  \<^verbatim>\<open>fmt.Errorf("<prefix>: %w", err)\<close>; \<open>Ctx\<close> is the value of \<^verbatim>\<open>ctx.Err()\<close>.
\<close>

datatype ctx_error = Canceled | DeadlineExceeded

datatype error =
  Ctx ctx_error
  | Transport string
  | UnexpectedStatusCode int string
  | Wrapped string error
  | AttemptsFailed int "error option"
  | APIError string int
  | Plain string

section \<open>The retrying HTTP client (internal/api/client.go)\<close>

text \<open>
  What the network and the caller's context do is the environment of a call. The
  environment answers the three questions the code asks, each indexed by the attempt
  number (the loop variable \<^verbatim>\<open>attempt\<close>):
  \<^item> \<open>transport a\<close>: what \<^verbatim>\<open>http.NewRequestWithContext\<close>, \<^verbatim>\<open>httpClient.Do\<close> and
    \<^verbatim>\<open>io.ReadAll\<close> yield for attempt \<open>a\<close>: an error of one of the three, or a
    response with its status code and body (\<open>ReadError\<close> has the status code of the
    response whose body could not be read);
  \<^item> \<open>done_in_backoff a\<close>: whether \<^verbatim>\<open>ctx.Done()\<close> wins the \<^verbatim>\<open>select\<close> before attempt
    \<open>a\<close>, and then the value of \<^verbatim>\<open>ctx.Err()\<close>;
  \<^item> \<open>err_after a\<close>: the value of \<^verbatim>\<open>ctx.Err()\<close> read after attempt \<open>a\<close> has failed
    (\<open>None\<close> is \<^verbatim>\<open>nil\<close>).
  The URL, the method and the headers of the request are not modelled.
\<close>

datatype http_outcome =
  NewRequestError string
  | DoError string
  | ReadError int string
  | Response int string

record net_env =
  transport :: "int \<Rightarrow> http_outcome"
  done_in_backoff :: "int \<Rightarrow> ctx_error option"
  err_after :: "int \<Rightarrow> ctx_error option"

text \<open>What a run does, in order: the backoff sleeps it completes and the attempts it makes.\<close>

datatype event = Sleep int | Attempt int

text \<open>\<^verbatim>\<open>func (c *Client) doRequest\<close>: one HTTP request.\<close>

definition doRequest :: "net_env \<Rightarrow> int \<Rightarrow> error + string" where
  "doRequest env a =
     (case transport env a of
        NewRequestError e \<Rightarrow> Inl (Wrapped ''failed to create request'' (Transport e))
      | DoError e \<Rightarrow> Inl (Wrapped ''request failed'' (Transport e))
      | ReadError code e \<Rightarrow> Inl (Wrapped ''failed to read response body'' (Transport e))
      | Response code body \<Rightarrow>
          if code < 200 \<or> code \<ge> 300 then Inl (UnexpectedStatusCode code body)
          else Inr body)"

text \<open>
  Go's \<^verbatim>\<open>int\<close> (on a 64-bit platform) and \<^verbatim>\<open>time.Duration\<close> are 64-bit two's
  complement integers: \<open>wrap64\<close> is the value a 64-bit signed operation keeps of its
  exact result.
  \<^verbatim>\<open>backoff := time.Duration(attempt*attempt) * 100 * time.Millisecond\<close>, in nanoseconds.
\<close>

definition wrap64 :: "int \<Rightarrow> int" where
  "wrap64 x = (x + 2 ^ 63) mod 2 ^ 64 - 2 ^ 63"

definition Millisecond :: int where
  "Millisecond = 1000000"

definition backoff :: "int \<Rightarrow> int" where
  "backoff attempt = wrap64 (wrap64 (wrap64 (attempt * attempt) * 100) * Millisecond)"

text \<open>
  The loop of \<^verbatim>\<open>doRequestWithRetry\<close>, entered with the loop variable at \<open>attempt\<close> and
  \<^verbatim>\<open>lastErr\<close> at \<open>lastErr\<close>. It returns the result and the events from there on. The
  counter is an unbounded integer: \<^verbatim>\<open>attempt++\<close> and \<^verbatim>\<open>c.maxRetries+1\<close> cannot wrap
  unless \<open>maxRetries\<close> is the largest \<^verbatim>\<open>int\<close>, \<open>2\<^sup>6\<^sup>3 - 1\<close>, which the model leaves out.
\<close>

function retry_loop ::
  "int \<Rightarrow> net_env \<Rightarrow> int \<Rightarrow> error option \<Rightarrow> (error + string) \<times> event list" where
  "retry_loop maxRetries env attempt lastErr =
     (if attempt \<le> maxRetries then
        (case (if attempt > 0 then done_in_backoff env attempt else None) of
           Some ce \<Rightarrow> (Inl (Ctx ce), [])
         | None \<Rightarrow>
             (let slept = (if attempt > 0 then [Sleep (backoff attempt)] else [])
              in case doRequest env attempt of
                   Inr resp \<Rightarrow> (Inr resp, slept @ [Attempt attempt])
                 | Inl err \<Rightarrow>
                     (case err_after env attempt of
                        Some ce \<Rightarrow> (Inl (Ctx ce), slept @ [Attempt attempt])
                      | None \<Rightarrow>
                          (case retry_loop maxRetries env (attempt + 1) (Some err) of
                             (r, evs) \<Rightarrow> (r, slept @ [Attempt attempt] @ evs)))))
      else (Inl (AttemptsFailed (maxRetries + 1) lastErr), []))"
  by pat_completeness auto
termination
  by (relation "measure (\<lambda>(maxRetries, env, attempt, lastErr). nat (maxRetries + 1 - attempt))") auto

declare retry_loop.simps [simp del]

text \<open>\<^verbatim>\<open>func (c *Client) doRequestWithRetry\<close>; of the client only \<^verbatim>\<open>maxRetries\<close> is read.\<close>

definition doRequestWithRetry :: "int \<Rightarrow> net_env \<Rightarrow> (error + string) \<times> event list" where
  "doRequestWithRetry maxRetries env = retry_loop maxRetries env 0 None"

text \<open>The events of the attempts \<open>k, \<dots>, n\<close> when each of them is made and fails.\<close>

definition attempt_events :: "int \<Rightarrow> event list" where
  "attempt_events a = (if a > 0 then [Sleep (backoff a)] else []) @ [Attempt a]"

definition failed_attempts :: "int \<Rightarrow> int \<Rightarrow> event list" where
  "failed_attempts k n = concat (map attempt_events [k..n])"

fun is_attempt :: "event \<Rightarrow> bool" where
  "is_attempt (Attempt a) = True"
| "is_attempt (Sleep d) = False"


text \<open>
  Attempt \<open>a\<close> is made and fails, and the context is silent around it: it does not fire
  during the backoff before the attempt, nor has it fired when the attempt has failed.
\<close>

definition fails_quietly :: "net_env \<Rightarrow> int \<Rightarrow> bool" where
  "fails_quietly env a =
     (isl (doRequest env a) \<and> (a > 0 \<longrightarrow> done_in_backoff env a = None) \<and>
      err_after env a = None)"

text \<open>A transport that answers every attempt with status 503, under a context that never fires.\<close>

definition always_503 :: net_env where
  "always_503 =
     \<lparr>transport = (\<lambda>a. Response 503 ''unavailable''),
      done_in_backoff = (\<lambda>a. None),
      err_after = (\<lambda>a. None)\<rparr>"

text \<open>
  Every attempt is answered with status 503; the caller's deadline has passed by the time
  the second attempt (the first retry) fails.
\<close>

definition deadline_during_retry_1 :: net_env where
  "deadline_during_retry_1 =
     \<lparr>transport = (\<lambda>a. Response 503 ''unavailable''),
      done_in_backoff = (\<lambda>a. None),
      err_after = (\<lambda>a. if a = 1 then Some DeadlineExceeded else None)\<rparr>"

section \<open>The API operations (internal/api/client.go)\<close>

text \<open>
  The response structs \<^verbatim>\<open>PrayerTimesResponse\<close>, \<^verbatim>\<open>QiblaResponse\<close> and the anonymous
  struct of \<^verbatim>\<open>GetCalendarMonth\<close> all have the fields \<^verbatim>\<open>Code\<close>, \<^verbatim>\<open>Status\<close> and
  \<^verbatim>\<open>Data\<close>; they differ in the type of \<^verbatim>\<open>Data\<close>, which is a type parameter here.
  \<^verbatim>\<open>json.Unmarshal\<close> into each of them is a parameter \<open>unmarshal\<close> of the operation:
  \<open>Inl\<close> is its error message. The operations return their result and the events of
  the request. The URL is not modelled, so of the parameters only what decides the
  control flow appears; the calls of \<^verbatim>\<open>params.GetDateString()\<close> that build the URL
  act on the parameters as \<open>GetDateString\<close> above says.
\<close>

record 'd api_response =
  Code :: int
  Status :: string
  Data :: 'd

definition GetPrayerTimes ::
  "(string \<Rightarrow> string + 'd api_response) \<Rightarrow> int \<Rightarrow> net_env
     \<Rightarrow> (error + 'd api_response) \<times> event list" where
  "GetPrayerTimes unmarshal maxRetries env =
     (case doRequestWithRetry maxRetries env of
        (Inl err, evs) \<Rightarrow> (Inl (Wrapped ''failed to fetch prayer times'' err), evs)
      | (Inr resp, evs) \<Rightarrow>
          (case unmarshal resp of
             Inl e \<Rightarrow> (Inl (Wrapped ''failed to parse response'' (Transport e)), evs)
           | Inr result \<Rightarrow>
               if Code result \<noteq> 200
               then (Inl (APIError (Status result) (Code result)), evs)
               else (Inr result, evs)))"

definition GetPrayerTimesByAddress ::
  "(string \<Rightarrow> string + 'd api_response) \<Rightarrow> int \<Rightarrow> net_env \<Rightarrow> PrayerTimesParams
     \<Rightarrow> (error + 'd api_response) \<times> event list" where
  "GetPrayerTimesByAddress unmarshal maxRetries env params =
     (if Address params = '''' then (Inl (Plain ''address is required''), [])
      else
        (case doRequestWithRetry maxRetries env of
           (Inl err, evs) \<Rightarrow> (Inl (Wrapped ''failed to fetch prayer times'' err), evs)
         | (Inr resp, evs) \<Rightarrow>
             (case unmarshal resp of
                Inl e \<Rightarrow> (Inl (Wrapped ''failed to parse response'' (Transport e)), evs)
              | Inr result \<Rightarrow>
                  if Code result \<noteq> 200
                  then (Inl (APIError (Status result) (Code result)), evs)
                  else (Inr result, evs))))"

definition GetQibla ::
  "(string \<Rightarrow> string + 'd api_response) \<Rightarrow> int \<Rightarrow> net_env
     \<Rightarrow> (error + 'd api_response) \<times> event list" where
  "GetQibla unmarshal maxRetries env =
     (case doRequestWithRetry maxRetries env of
        (Inl err, evs) \<Rightarrow> (Inl (Wrapped ''failed to fetch Qibla direction'' err), evs)
      | (Inr resp, evs) \<Rightarrow>
          (case unmarshal resp of
             Inl e \<Rightarrow> (Inl (Wrapped ''failed to parse response'' (Transport e)), evs)
           | Inr result \<Rightarrow>
               if Code result \<noteq> 200
               then (Inl (APIError (Status result) (Code result)), evs)
               else (Inr result, evs)))"

text \<open>\<^verbatim>\<open>GetCalendarMonth\<close> returns \<^verbatim>\<open>result.Data\<close>, a slice of responses.\<close>

definition GetCalendarMonth ::
  "(string \<Rightarrow> string + ('d list) api_response) \<Rightarrow> int \<Rightarrow> net_env
     \<Rightarrow> (error + 'd list) \<times> event list" where
  "GetCalendarMonth unmarshal maxRetries env =
     (case doRequestWithRetry maxRetries env of
        (Inl err, evs) \<Rightarrow> (Inl (Wrapped ''failed to fetch calendar'' err), evs)
      | (Inr resp, evs) \<Rightarrow>
          (case unmarshal resp of
             Inl e \<Rightarrow> (Inl (Wrapped ''failed to parse response'' (Transport e)), evs)
           | Inr result \<Rightarrow> (Inr (Data result), evs)))"

text \<open>
  A server that answers the first attempt with HTTP status 200 and a body whose JSON
  carries the application code 400, and the decoders of that body.
\<close>

definition rejecting_server :: net_env where
  "rejecting_server =
     \<lparr>transport = (\<lambda>a. Response 200 ''code-400-body''),
      done_in_backoff = (\<lambda>a. None),
      err_after = (\<lambda>a. None)\<rparr>"

definition unmarshal_calendar :: "string \<Rightarrow> string + (string list) api_response" where
  "unmarshal_calendar body =
     (if body = ''code-400-body''
      then Inr \<lparr>Code = 400, Status = ''Bad Request'', Data = [''day-1'']\<rparr>
      else Inl ''invalid character'')"

definition unmarshal_times :: "string \<Rightarrow> string + string api_response" where
  "unmarshal_times body =
     (if body = ''code-400-body''
      then Inr \<lparr>Code = 400, Status = ''Bad Request'', Data = ''timings''\<rparr>
      else if body = ''[1,2]'' then Inl ''cannot unmarshal array into Go value''
      else Inl ''invalid character'')"

section \<open>The file system\<close>

text \<open>
  The files and directories the cache sees: \<open>files\<close> maps the path of a regular file to
  its content, \<open>dirs\<close> is the set of the directories that exist. Paths are compared as
  strings. \<open>denied p\<close> is the error with which the operating system refuses to create
  or to write \<open>p\<close> for a reason that \<open>dirs\<close> and \<open>files\<close> do not show (permissions,
  a read-only or full disk, a path that is too long as a whole), and \<open>None\<close> when it has
  no such reason. In the results of the operations of package \<^verbatim>\<open>os\<close>, \<open>Inl\<close> is the
  error message. Reading and removing a file that exists always succeed.
\<close>

record FS =
  dirs :: "string set"
  files :: "string \<rightharpoonup> string"
  denied :: "string \<Rightarrow> string option"

text \<open>
  The directory of a path (the path without its last element and the separator) and
  its last element.
\<close>

definition path_dir :: "string \<Rightarrow> string" where
  "path_dir p = rev (drop 1 (dropWhile (\<lambda>c. c \<noteq> CHR ''/'') (rev p)))"

definition path_base :: "string \<Rightarrow> string" where
  "path_base p = rev (takeWhile (\<lambda>c. c \<noteq> CHR ''/'') (rev p))"

text \<open>
  \<^verbatim>\<open>os.MkdirAll\<close>: an error when the path is a regular file; nothing to do when the
  directory exists; otherwise the directory is created, unless the path is empty or the
  operating system refuses.
\<close>

definition MkdirAll :: "string \<Rightarrow> FS \<Rightarrow> string + FS" where
  "MkdirAll d fs =
     (case files fs d of
        Some content \<Rightarrow> Inl ''not a directory''
      | None \<Rightarrow>
          if d \<in> dirs fs then Inr fs
          else if d = '''' then Inl ''no such file or directory''
          else (case denied fs d of
                  Some e \<Rightarrow> Inl e
                | None \<Rightarrow> Inr (fs\<lparr>dirs := insert d (dirs fs)\<rparr>)))"

definition ReadFile :: "string \<Rightarrow> FS \<Rightarrow> string + string" where
  "ReadFile p fs =
     (case files fs p of
        None \<Rightarrow> Inl ''no such file or directory''
      | Some content \<Rightarrow> Inr content)"

text \<open>
  \<^verbatim>\<open>os.WriteFile\<close> creates or truncates the file and writes the content. It fails when
  the directory of the path does not exist, when the path is a directory, when the file
  name is longer than 255 bytes (the limit of the usual file systems), and when the
  operating system refuses the write.
\<close>

definition WriteFile :: "string \<Rightarrow> string \<Rightarrow> FS \<Rightarrow> string + FS" where
  "WriteFile p content fs =
     (if path_dir p \<notin> dirs fs then Inl ''no such file or directory''
      else if p \<in> dirs fs then Inl ''is a directory''
      else if length (path_base p) > 255 then Inl ''file name too long''
      else (case denied fs p of
              Some e \<Rightarrow> Inl e
            | None \<Rightarrow> Inr (fs\<lparr>files := (files fs)(p \<mapsto> content)\<rparr>)))"

definition Remove :: "string \<Rightarrow> FS \<Rightarrow> string + FS" where
  "Remove p fs =
     (case files fs p of
        None \<Rightarrow> Inl ''no such file or directory''
      | Some content \<Rightarrow> Inr (fs\<lparr>files := (files fs)(p := None)\<rparr>))"

section \<open>The cache (package cache)\<close>

text \<open>
  \<^verbatim>\<open>type Entry struct\<close>; the fields \<^verbatim>\<open>Data\<close> and \<^verbatim>\<open>Key\<close> are called \<open>EntryData\<close> and
  \<open>EntryKey\<close> here, apart from the \<open>Data\<close> of a response.
\<close>

record Entry =
  EntryData :: string
  CreatedAt :: Time
  ExpiresAt :: Time
  EntryKey :: string

record Cache =
  dir :: string
  ttl :: int
  enabled :: bool

text \<open>
  \<^verbatim>\<open>json.Marshal\<close> of an entry and \<^verbatim>\<open>json.Unmarshal\<close> into an entry belong to the
  standard library: they are parameters of the cache operations. \<open>Inl\<close> is the error.
\<close>

record entry_json =
  marshal_entry :: "Entry \<Rightarrow> string + string"
  unmarshal_entry :: "string \<Rightarrow> string + Entry"

definition DefaultTTL :: int where
  "DefaultTTL = 24 * 3600 * 1000000000"

definition WithTTL :: "int \<Rightarrow> Cache \<Rightarrow> Cache" where
  "WithTTL t c = c\<lparr>ttl := t\<rparr>"

definition WithEnabled :: "bool \<Rightarrow> Cache \<Rightarrow> Cache" where
  "WithEnabled e c = c\<lparr>enabled := e\<rparr>"

text \<open>\<^verbatim>\<open>func New(dir string, opts ...Option) (*Cache, error)\<close>, on the file system \<open>fs\<close>.\<close>

definition New :: "string \<Rightarrow> (Cache \<Rightarrow> Cache) list \<Rightarrow> FS \<Rightarrow> error + Cache \<times> FS" where
  "New d opts fs =
     (let c = fold (\<lambda>opt c. opt c) opts \<lparr>dir = d, ttl = DefaultTTL, enabled = True\<rparr>
      in if enabled c then
           (case MkdirAll (dir c) fs of
              Inl e \<Rightarrow> Inl (Wrapped ''failed to create cache directory'' (Transport e))
            | Inr fs' \<Rightarrow> Inr (c, fs'))
         else Inr (c, fs))"

definition IsEnabled :: "Cache \<Rightarrow> bool" where
  "IsEnabled c = enabled c"

definition SetEnabled :: "Cache \<Rightarrow> bool \<Rightarrow> Cache" where
  "SetEnabled c e = c\<lparr>enabled := e\<rparr>"

text \<open>
  \<^verbatim>\<open>filepath.Join(c.dir, key+".json")\<close>, for a directory and a key that need no cleaning.
\<close>

definition getPath :: "Cache \<Rightarrow> string \<Rightarrow> string" where
  "getPath c k = dir c @ ''/'' @ k @ ''.json''"

text \<open>
  \<^verbatim>\<open>func (c *Cache) Get(key string) ([]byte, bool)\<close> at the time \<open>now\<close>: the result is
  \<open>Some data\<close> for \<^verbatim>\<open>(data, true)\<close> and \<open>None\<close> for \<^verbatim>\<open>(nil, false)\<close>, beside the file
  system as the call leaves it. The error of \<^verbatim>\<open>os.Remove\<close> is discarded, as in the code.
\<close>

definition Get :: "entry_json \<Rightarrow> Cache \<Rightarrow> string \<Rightarrow> Time \<Rightarrow> FS \<Rightarrow> string option \<times> FS" where
  "Get js c k now fs =
     (if \<not> enabled c then (None, fs)
      else
        (let path = getPath c k
         in case ReadFile path fs of
              Inl err \<Rightarrow> (None, fs)
            | Inr content \<Rightarrow>
                (case unmarshal_entry js content of
                   Inl err \<Rightarrow> (None, (case Remove path fs of Inl e \<Rightarrow> fs | Inr fs' \<Rightarrow> fs'))
                 | Inr entry \<Rightarrow>
                     if After now (ExpiresAt entry)
                     then (None, (case Remove path fs of Inl e \<Rightarrow> fs | Inr fs' \<Rightarrow> fs'))
                     else (Some (EntryData entry), fs))))"

text \<open>
  \<^verbatim>\<open>func (c *Cache) Set(key string, data []byte) error\<close>. The code reads the clock
  twice: \<open>now1\<close> is the reading stored in \<^verbatim>\<open>CreatedAt\<close>, \<open>now2\<close> the one the expiry is
  counted from. The result is the error (\<open>None\<close> is \<^verbatim>\<open>nil\<close>) and the file system.
\<close>

definition Set ::
  "entry_json \<Rightarrow> Cache \<Rightarrow> string \<Rightarrow> string \<Rightarrow> Time \<Rightarrow> Time \<Rightarrow> FS \<Rightarrow> error option \<times> FS" where
  "Set js c k content now1 now2 fs =
     (if \<not> enabled c then (None, fs)
      else
        (let entry = \<lparr>EntryData = content, CreatedAt = now1,
                      ExpiresAt = Add now2 (ttl c), EntryKey = k\<rparr>
         in case marshal_entry js entry of
              Inl err \<Rightarrow> (Some (Wrapped ''failed to marshal cache entry'' (Transport err)), fs)
            | Inr entryData \<Rightarrow>
                (case WriteFile (getPath c k) entryData fs of
                   Inl err \<Rightarrow> (Some (Wrapped ''failed to write cache file'' (Transport err)), fs)
                 | Inr fs' \<Rightarrow> (None, fs'))))"

text \<open>
  A cache in the directory \<^verbatim>\<open>cache\<close> with the default TTL, two entries, and a JSON
  library that knows their serialisations \<^verbatim>\<open>envelope-a\<close> and \<^verbatim>\<open>envelope-b\<close> (and
  those of entry a under the key \<^verbatim>\<open>a/b\<close> and under a key of 251 bytes, and rejects
  everything else). Like \<^verbatim>\<open>encoding/json\<close>, it writes a payload in compact form: the
  payload \<^verbatim>\<open>[3, 4]\<close> is stored as \<^verbatim>\<open>[3,4]\<close>, in the envelope of entry b. The payloads
  of the entries are JSON. On \<open>disk\<close> the entry file of key \<^verbatim>\<open>00aa\<close> holds entry a,
  the one of key \<^verbatim>\<open>00bb\<close> holds bytes that are no envelope, and key \<^verbatim>\<open>00cc\<close> has no
  file. On \<open>empty_disk\<close> there is nothing, not even the directory.
\<close>

definition cache_on :: Cache where
  "cache_on = \<lparr>dir = ''cache'', ttl = DefaultTTL, enabled = True\<rparr>"

definition entry_a :: Entry where
  "entry_a =
     \<lparr>EntryData = ''[1,2]'', CreatedAt = jan_15_2024,
      ExpiresAt = Add jan_15_2024 DefaultTTL, EntryKey = ''00aa''\<rparr>"

definition entry_b :: Entry where
  "entry_b =
     \<lparr>EntryData = ''[3,4]'', CreatedAt = mar_1_2024,
      ExpiresAt = Add mar_1_2024 DefaultTTL, EntryKey = ''00bb''\<rparr>"

definition entry_c :: Entry where
  "entry_c = entry_a\<lparr>EntryKey := ''a/b''\<rparr>"

definition long_key :: string where
  "long_key = replicate 251 CHR ''a''"

definition entry_long :: Entry where
  "entry_long = entry_a\<lparr>EntryKey := long_key\<rparr>"

definition toy_json :: entry_json where
  "toy_json =
     \<lparr>marshal_entry =
        (\<lambda>e. if e = entry_a then Inr ''envelope-a''
             else if e = entry_b then Inr ''envelope-b''
             else if e = entry_b\<lparr>EntryData := ''[3, 4]''\<rparr> then Inr ''envelope-b''
             else if e = entry_c then Inr ''envelope-c''
             else if e = entry_long then Inr ''envelope-long''
             else Inl ''invalid character''),
      unmarshal_entry =
        (\<lambda>s. if s = ''envelope-a'' then Inr entry_a
             else if s = ''envelope-b'' then Inr entry_b
             else if s = ''envelope-c'' then Inr entry_c
             else if s = ''envelope-long'' then Inr entry_long
             else Inl ''invalid character'')\<rparr>"

text \<open>
  The form in which that library stores a payload: the compact form of the one payload
  with white space that it knows.
\<close>

definition toy_compact :: "string \<Rightarrow> string" where
  "toy_compact s = (if s = ''[3, 4]'' then ''[3,4]'' else s)"

definition disk :: FS where
  "disk =
     \<lparr>dirs = {''cache''},
      files = [''cache/00aa.json'' \<mapsto> ''envelope-a'', ''cache/00bb.json'' \<mapsto> ''not an envelope''],
      denied = (\<lambda>p. None)\<rparr>"

text \<open>\<open>disk\<close> after the entry file of key \<^verbatim>\<open>00bb\<close> has been replaced by entry b.\<close>

definition disk_b :: FS where
  "disk_b = disk\<lparr>files := (files disk)(''cache/00bb.json'' \<mapsto> ''envelope-b'')\<rparr>"

definition empty_disk :: FS where
  "empty_disk = \<lparr>dirs = {}, files = Map.empty, denied = (\<lambda>p. None)\<rparr>"

section \<open>Cache keys (cache.GenerateKey)\<close>

text \<open>
  \<^verbatim>\<open>GenerateKey(params ...interface{})\<close> writes each parameter with \<^verbatim>\<open>fmt.Fprintf(h, "%v", p)\<close>
  into a SHA-256 hash and keeps the first 16 characters of the hexadecimal digest. The
  callers pass strings, \<^verbatim>\<open>int\<close>s and \<^verbatim>\<open>float64\<close>s. Two functions of the standard
  library are parameters of the model: \<open>sha256_hex\<close>, the hexadecimal SHA-256 digest of
  a byte string, and \<open>fmt_v_float\<close>, the \<^verbatim>\<open>%v\<close> rendering of a \<^verbatim>\<open>float64\<close>. A
  \<^verbatim>\<open>float64\<close> is modelled by the real number it denotes (no NaN, no infinities, no
  negative zero).
\<close>

record stdlib =
  sha256_hex :: "string \<Rightarrow> string"
  fmt_v_float :: "real \<Rightarrow> string"

datatype param = PString string | PInt int | PFloat real

fun fmt_v :: "stdlib \<Rightarrow> param \<Rightarrow> string" where
  "fmt_v lib (PString s) = s"
| "fmt_v lib (PInt i) = (if i < 0 then ''-'' else '''') @ digits10 (nat \<bar>i\<bar>)"
| "fmt_v lib (PFloat x) = fmt_v_float lib x"

text \<open>The bytes written into the hash, and the key.\<close>

definition key_material :: "stdlib \<Rightarrow> param list \<Rightarrow> string" where
  "key_material lib params = concat (map (fmt_v lib) params)"

definition GenerateKey :: "stdlib \<Rightarrow> param list \<Rightarrow> string" where
  "GenerateKey lib params = take 16 (sha256_hex lib (key_material lib params))"

text \<open>
  \<^verbatim>\<open>fmt.Sprintf("%.4f", x)\<close>: the sign, the integer part, a point and four decimals of
  \<open>x\<close> rounded to the nearest multiple of \<open>10\<^sup>-\<^sup>4\<close>, a tie going to the even one.
\<close>

definition round_half_even :: "real \<Rightarrow> int" where
  "round_half_even y =
     (let r = \<lfloor>y\<rfloor>; f = y - of_int r
      in if f < 1 / 2 then r
         else if f > 1 / 2 then r + 1
         else if even r then r else r + 1)"

definition sprintf_4f :: "real \<Rightarrow> string" where
  "sprintf_4f x =
     (let n = nat (round_half_even (\<bar>x\<bar> * 10000));
          ds = digits10 (n mod 10000)
      in (if x < 0 then ''-'' else '''') @ digits10 (n div 10000) @ ''.'' @
         replicate (4 - length ds) CHR ''0'' @ ds)"

text \<open>
  The three keys of \<^verbatim>\<open>CachedClient\<close>, as its methods compute them. \<open>now\<close> is what
  \<^verbatim>\<open>time.Now()\<close> returns if \<^verbatim>\<open>GetDateString\<close> calls it.
\<close>

definition times_key :: "stdlib \<Rightarrow> PrayerTimesParams \<Rightarrow> Time \<Rightarrow> string" where
  "times_key lib params now =
     GenerateKey lib
       [PString ''times'', PFloat (Latitude params), PFloat (Longitude params),
        PString (fst (GetDateString params now)), PInt (Method params)]"

definition addr_key :: "stdlib \<Rightarrow> PrayerTimesParams \<Rightarrow> Time \<Rightarrow> string" where
  "addr_key lib params now =
     GenerateKey lib
       [PString ''addr'', PString (Address params),
        PString (fst (GetDateString params now)), PInt (Method params)]"

definition qibla_key :: "stdlib \<Rightarrow> real \<Rightarrow> real \<Rightarrow> string" where
  "qibla_key lib latitude longitude =
     GenerateKey lib
       [PString ''qibla'', PString (sprintf_4f latitude), PString (sprintf_4f longitude)]"

section \<open>The caching client (CachedClient)\<close>

text \<open>
  \<^verbatim>\<open>type CachedClient struct\<close>: of the embedded \<^verbatim>\<open>*Client\<close> the retry budget is kept
  (\<open>retries\<close>); \<open>cache\<close> is \<open>None\<close> for a \<^verbatim>\<open>nil\<close> cache.
\<close>

record CachedClient =
  retries :: int
  cache :: "Cache option"
  bypass :: bool

text \<open>The readings of the clock at the four places where a cached operation may read it.\<close>

record clock =
  at_date :: Time
  at_get :: Time
  at_created :: Time
  at_expiry :: Time

text \<open>
  \<^verbatim>\<open>func (cc *CachedClient) GetPrayerTimes\<close>. \<open>unmarshal\<close> and \<open>marshal\<close> are
  \<^verbatim>\<open>json.Unmarshal\<close> into and \<^verbatim>\<open>json.Marshal\<close> of a \<^verbatim>\<open>PrayerTimesResponse\<close>. The
  result comes with the events of the remote request (none when the cache answers) and
  the file system as the call leaves it. The error of \<^verbatim>\<open>cache.Set\<close> is discarded, as in
  the code.
\<close>

definition CachedClient_GetPrayerTimes ::
  "stdlib \<Rightarrow> entry_json \<Rightarrow> (string \<Rightarrow> string + 'd api_response)
     \<Rightarrow> ('d api_response \<Rightarrow> string + string) \<Rightarrow> CachedClient \<Rightarrow> net_env
     \<Rightarrow> PrayerTimesParams \<Rightarrow> clock \<Rightarrow> FS
     \<Rightarrow> (error + 'd api_response) \<times> event list \<times> FS" where
  "CachedClient_GetPrayerTimes lib js unmarshal marshal cc env params clk fs =
     (case cache cc of
        None \<Rightarrow>
          (case GetPrayerTimes unmarshal (retries cc) env of (r, evs) \<Rightarrow> (r, evs, fs))
      | Some c \<Rightarrow>
          if bypass cc \<or> \<not> IsEnabled c then
            (case GetPrayerTimes unmarshal (retries cc) env of (r, evs) \<Rightarrow> (r, evs, fs))
          else
            (let k = times_key lib params (at_date clk)
             in case Get js c k (at_get clk) fs of
                  (hit, fs1) \<Rightarrow>
                    (case (case hit of
                             None \<Rightarrow> None
                           | Some content \<Rightarrow>
                               (case unmarshal content of
                                  Inl err \<Rightarrow> None
                                | Inr result \<Rightarrow> Some result)) of
                       Some result \<Rightarrow> (Inr result, [], fs1)
                     | None \<Rightarrow>
                         (case GetPrayerTimes unmarshal (retries cc) env of
                            (Inl err, evs) \<Rightarrow> (Inl err, evs, fs1)
                          | (Inr result, evs) \<Rightarrow>
                              (case marshal result of
                                 Inl err \<Rightarrow> (Inr result, evs, fs1)
                               | Inr content \<Rightarrow>
                                   (Inr result, evs,
                                    snd (Set js c k content (at_created clk) (at_expiry clk)
                                           fs1)))))))"

text \<open>
  A file system whose only file is the entry file of key \<open>k\<close>, holding the envelope of
  entry a: a well-formed envelope, not yet expired on 15 January 2024, whose payload
  \<^verbatim>\<open>[1,2]\<close> is JSON, and not the JSON of a \<^verbatim>\<open>PrayerTimesResponse\<close>.
\<close>

definition disk_with_entry :: "string \<Rightarrow> FS" where
  "disk_with_entry k =
     \<lparr>dirs = {''cache''}, files = [getPath cache_on k \<mapsto> ''envelope-a''],
      denied = (\<lambda>p. None)\<rparr>"

definition caching_client :: CachedClient where
  "caching_client = \<lparr>retries = 3, cache = Some cache_on, bypass = False\<rparr>"

definition clock_jan_15 :: clock where
  "clock_jan_15 =
     \<lparr>at_date = jan_15_2024, at_get = jan_15_2024, at_created = jan_15_2024,
      at_expiry = jan_15_2024\<rparr>"

definition marshal_times :: "string api_response \<Rightarrow> string + string" where
  "marshal_times r =
     (if r = \<lparr>Code = 400, Status = ''Bad Request'', Data = ''timings''\<rparr>
      then Inr ''code-400-body'' else Inl ''unsupported value'')"

text \<open>The key of \<open>params_no_date\<close> on 15 January 2024, whatever the library computes.\<close>

definition key_jan_15 :: "stdlib \<Rightarrow> string" where
  "key_jan_15 lib = times_key lib params_no_date jan_15_2024"

text \<open>
  Two latitudes that differ by \<open>1/65536\<close>, and a longitude; all three are values a
  \<^verbatim>\<open>float64\<close> holds exactly.
\<close>

definition lat_30_5 :: real where
  "lat_30_5 = 61 / 2"

definition lat_nearby :: real where
  "lat_nearby = 61 / 2 + 1 / 65536"

definition lon_31_25 :: real where
  "lon_31_25 = 125 / 4"

section \<open>Locations and the IP detector (package location)\<close>

text \<open>
  \<^verbatim>\<open>type Location struct\<close>. The fields \<^verbatim>\<open>Address\<close>, \<^verbatim>\<open>Latitude\<close>, \<^verbatim>\<open>Longitude\<close> and
  \<^verbatim>\<open>Timezone\<close> carry the prefix \<open>loc_\<close>, apart from those of the request parameters.
  Coordinates are the real numbers the \<^verbatim>\<open>float64\<close>s denote.
\<close>

record Location =
  loc_Address :: string
  loc_Latitude :: real
  loc_Longitude :: real
  City :: string
  Country :: string
  CountryCode :: string
  loc_Timezone :: string
  DetectedAt :: Time
  Source :: string

definition IsValid :: "Location \<Rightarrow> bool" where
  "IsValid l =
     (loc_Latitude l \<ge> - 90 \<and> loc_Latitude l \<le> 90 \<and>
      loc_Longitude l \<ge> - 180 \<and> loc_Longitude l \<le> 180 \<and>
      (loc_Latitude l \<noteq> 0 \<or> loc_Longitude l \<noteq> 0))"

text \<open>The responses of the three providers, with the fields the detector reads.\<close>

record IPGeoResponse =
  geo_Status :: string
  geo_Message :: string
  geo_Country :: string
  geo_CountryCode :: string
  geo_City :: string
  geo_Lat :: real
  geo_Lon :: real
  geo_Timezone :: string

record IPInfoResponse =
  info_City :: string
  info_Region :: string
  info_Country :: string
  info_Loc :: string
  info_Timezone :: string

record IPAPICoResponse =
  co_City :: string
  co_CountryName :: string
  co_CountryCode :: string
  co_Latitude :: real
  co_Longitude :: real
  co_Timezone :: string
  co_Error :: bool
  co_Reason :: string

text \<open>
  The standard library, as far as the detector uses it: \<^verbatim>\<open>json.Unmarshal\<close> into the
  three response structs and \<^verbatim>\<open>strconv.ParseFloat(s, 64)\<close>. \<open>Inl\<close> is the error.
\<close>

record geo_lib =
  unmarshal_ipapi :: "string \<Rightarrow> string + IPGeoResponse"
  unmarshal_ipinfo :: "string \<Rightarrow> string + IPInfoResponse"
  unmarshal_ipapico :: "string \<Rightarrow> string + IPAPICoResponse"
  ParseFloat :: "string \<Rightarrow> string + real"

definition IPAPIEndpoint :: string where
  "IPAPIEndpoint = ''http://ip-api.com/json/''"

definition IPInfoEndpoint :: string where
  "IPInfoEndpoint = ''https://ipinfo.io/json''"

definition IPAPICoEndpoint :: string where
  "IPAPICoEndpoint = ''https://ipapi.co/json/''"

text \<open>
  \<^verbatim>\<open>func (d *Detector) doRequest\<close>; \<open>http url\<close> is what the network yields for a GET of
  \<open>url\<close>. The status is checked before the body is read.
\<close>

definition Detector_doRequest :: "(string \<Rightarrow> http_outcome) \<Rightarrow> string \<Rightarrow> error + string" where
  "Detector_doRequest http url =
     (case http url of
        NewRequestError e \<Rightarrow> Inl (Wrapped ''failed to create request'' (Transport e))
      | DoError e \<Rightarrow> Inl (Wrapped ''request failed'' (Transport e))
      | ReadError code e \<Rightarrow>
          if code \<noteq> 200 then Inl (Plain (''unexpected status code: '' @ appendInt code 0))
          else Inl (Wrapped ''failed to read response'' (Transport e))
      | Response code body \<Rightarrow>
          if code \<noteq> 200 then Inl (Plain (''unexpected status code: '' @ appendInt code 0))
          else Inr body)"

text \<open>\<^verbatim>\<open>strings.Split(s, ",")\<close> and \<^verbatim>\<open>strings.TrimSpace\<close> (on ASCII white space).\<close>

fun split_on :: "char \<Rightarrow> string \<Rightarrow> string list" where
  "split_on sep [] = [[]]"
| "split_on sep (c # cs) =
     (if c = sep then [] # split_on sep cs
      else (case split_on sep cs of
              [] \<Rightarrow> [[c]]
            | w # ws \<Rightarrow> (c # w) # ws))"

definition is_space :: "char \<Rightarrow> bool" where
  "is_space c = (c \<in> {CHR '' '', CHR 0x09, CHR 0x0A, CHR 0x0B, CHR 0x0C, CHR 0x0D})"

definition TrimSpace :: "string \<Rightarrow> string" where
  "TrimSpace s = rev (dropWhile is_space (rev (dropWhile is_space s)))"

definition parseLatLon :: "geo_lib \<Rightarrow> string \<Rightarrow> error + real \<times> real" where
  "parseLatLon lib loc =
     (case split_on CHR '','' loc of
        [a, b] \<Rightarrow>
          (case ParseFloat lib (TrimSpace a) of
             Inl e \<Rightarrow> Inl (Wrapped ''invalid latitude'' (Transport e))
           | Inr lat \<Rightarrow>
               (case ParseFloat lib (TrimSpace b) of
                  Inl e \<Rightarrow> Inl (Wrapped ''invalid longitude'' (Transport e))
                | Inr lon \<Rightarrow> Inr (lat, lon)))
      | parts \<Rightarrow> Inl (Plain (''invalid location format: '' @ loc)))"

definition formatAddress :: "string \<Rightarrow> string \<Rightarrow> string" where
  "formatAddress city country =
     (if city = '''' \<and> country = '''' then ''''
      else if city = '''' then country
      else if country = '''' then city
      else city @ '', '' @ country)"

text \<open>The zero value of \<^verbatim>\<open>time.Time\<close>, which a field left out of a struct literal has.\<close>

definition zero_time :: Time where
  "zero_time = \<lparr>nsec = 0, zone_offset = 0\<rparr>"

definition detectFromIPAPI :: "geo_lib \<Rightarrow> (string \<Rightarrow> http_outcome) \<Rightarrow> error + Location" where
  "detectFromIPAPI lib http =
     (case Detector_doRequest http IPAPIEndpoint of
        Inl err \<Rightarrow> Inl err
      | Inr resp \<Rightarrow>
          (case unmarshal_ipapi lib resp of
             Inl e \<Rightarrow> Inl (Wrapped ''failed to parse ip-api.com response'' (Transport e))
           | Inr result \<Rightarrow>
               if geo_Status result \<noteq> ''success''
               then Inl (Plain (''ip-api.com error: '' @ geo_Message result))
               else Inr \<lparr>loc_Address = formatAddress (geo_City result) (geo_Country result),
                         loc_Latitude = geo_Lat result,
                         loc_Longitude = geo_Lon result,
                         City = geo_City result,
                         Country = geo_Country result,
                         CountryCode = geo_CountryCode result,
                         loc_Timezone = geo_Timezone result,
                         DetectedAt = zero_time,
                         Source = ''''\<rparr>))"

definition detectFromIPInfo :: "geo_lib \<Rightarrow> (string \<Rightarrow> http_outcome) \<Rightarrow> error + Location" where
  "detectFromIPInfo lib http =
     (case Detector_doRequest http IPInfoEndpoint of
        Inl err \<Rightarrow> Inl err
      | Inr resp \<Rightarrow>
          (case unmarshal_ipinfo lib resp of
             Inl e \<Rightarrow> Inl (Wrapped ''failed to parse ipinfo.io response'' (Transport e))
           | Inr result \<Rightarrow>
               (case parseLatLon lib (info_Loc result) of
                  Inl err \<Rightarrow> Inl (Wrapped ''failed to parse coordinates from ipinfo.io'' err)
                | Inr (lat, lon) \<Rightarrow>
                    Inr \<lparr>loc_Address = formatAddress (info_City result) (info_Region result),
                         loc_Latitude = lat,
                         loc_Longitude = lon,
                         City = info_City result,
                         Country = info_Country result,
                         CountryCode = info_Country result,
                         loc_Timezone = info_Timezone result,
                         DetectedAt = zero_time,
                         Source = ''''\<rparr>)))"

definition detectFromIPAPICo :: "geo_lib \<Rightarrow> (string \<Rightarrow> http_outcome) \<Rightarrow> error + Location" where
  "detectFromIPAPICo lib http =
     (case Detector_doRequest http IPAPICoEndpoint of
        Inl err \<Rightarrow> Inl err
      | Inr resp \<Rightarrow>
          (case unmarshal_ipapico lib resp of
             Inl e \<Rightarrow> Inl (Wrapped ''failed to parse ipapi.co response'' (Transport e))
           | Inr result \<Rightarrow>
               if co_Error result
               then Inl (Plain (''ipapi.co error: '' @ co_Reason result))
               else Inr \<lparr>loc_Address = formatAddress (co_City result) (co_CountryName result),
                         loc_Latitude = co_Latitude result,
                         loc_Longitude = co_Longitude result,
                         City = co_City result,
                         Country = co_CountryName result,
                         CountryCode = co_CountryCode result,
                         loc_Timezone = co_Timezone result,
                         DetectedAt = zero_time,
                         Source = ''''\<rparr>))"

text \<open>
  \<^verbatim>\<open>func (d *Detector) DetectFromIP\<close>. The result comes with the endpoints of the
  providers that were tried, in the order of the calls. \<open>now\<close> is the reading of the
  clock at the one place where the call reads it.
\<close>

definition DetectFromIP ::
  "geo_lib \<Rightarrow> (string \<Rightarrow> http_outcome) \<Rightarrow> Time \<Rightarrow> (error + Location) \<times> string list" where
  "DetectFromIP lib http now =
     (case (case detectFromIPAPI lib http of
              Inl err \<Rightarrow> None
            | Inr loc \<Rightarrow> if IsValid loc then Some loc else None) of
        Some loc \<Rightarrow> (Inr (loc\<lparr>Source := ''ip'', DetectedAt := now\<rparr>), [IPAPIEndpoint])
      | None \<Rightarrow>
          (case (case detectFromIPInfo lib http of
                   Inl err \<Rightarrow> None
                 | Inr loc \<Rightarrow> if IsValid loc then Some loc else None) of
             Some loc \<Rightarrow>
               (Inr (loc\<lparr>Source := ''ip'', DetectedAt := now\<rparr>),
                [IPAPIEndpoint, IPInfoEndpoint])
           | None \<Rightarrow>
               (case (case detectFromIPAPICo lib http of
                        Inl err \<Rightarrow> None
                      | Inr loc \<Rightarrow> if IsValid loc then Some loc else None) of
                  Some loc \<Rightarrow>
                    (Inr (loc\<lparr>Source := ''ip'', DetectedAt := now\<rparr>),
                     [IPAPIEndpoint, IPInfoEndpoint, IPAPICoEndpoint])
                | None \<Rightarrow>
                    (Inl (Plain ''failed to detect location from IP: all services failed''),
                     [IPAPIEndpoint, IPInfoEndpoint, IPAPICoEndpoint]))))"

text \<open>
  What \<^verbatim>\<open>DetectFromIP\<close> accepts of a provider: \<^verbatim>\<open>err == nil && loc.IsValid()\<close>.
\<close>

definition accepted :: "error + Location \<Rightarrow> bool" where
  "accepted r = (case r of Inl err \<Rightarrow> False | Inr loc \<Rightarrow> IsValid loc)"

text \<open>
  A network on which ip-api.com answers with a page that is no JSON, ipinfo.io with the
  coordinates \<^verbatim>\<open>0,0\<close> and ipapi.co with a location in Cairo, and a library that decodes
  the two JSON bodies.
\<close>

definition third_provider_net :: "string \<Rightarrow> http_outcome" where
  "third_provider_net url =
     (if url = IPAPIEndpoint then Response 200 ''<html>''
      else if url = IPInfoEndpoint then Response 200 ''ipinfo-body''
      else if url = IPAPICoEndpoint then Response 200 ''ipapico-body''
      else DoError ''no such host'')"

definition toy_geo_lib :: geo_lib where
  "toy_geo_lib =
     \<lparr>unmarshal_ipapi = (\<lambda>body. Inl ''invalid character''),
      unmarshal_ipinfo =
        (\<lambda>body. if body = ''ipinfo-body''
           then Inr \<lparr>info_City = '''', info_Region = '''', info_Country = '''',
                     info_Loc = ''0,0'', info_Timezone = ''''\<rparr>
           else Inl ''invalid character''),
      unmarshal_ipapico =
        (\<lambda>body. if body = ''ipapico-body''
           then Inr \<lparr>co_City = ''Cairo'', co_CountryName = ''Egypt'', co_CountryCode = ''EG'',
                     co_Latitude = 30.04, co_Longitude = 31.23,
                     co_Timezone = ''Africa/Cairo'', co_Error = False, co_Reason = ''''\<rparr>
           else Inl ''invalid character''),
      ParseFloat = (\<lambda>s. if s = ''0'' then Inr 0 else Inl ''invalid syntax'')\<rparr>"

text \<open>A network on which no provider can be reached.\<close>

definition no_net :: "string \<Rightarrow> http_outcome" where
  "no_net url = DoError ''no such host''"

section \<open>GetDateString and its receiver\<close>

lemma GetDateString_zero:
  "IsZero (Date p) \<Longrightarrow> GetDateString p now = (Format_02_01_2006 now, p\<lparr>Date := now\<rparr>)"
  by (simp add: GetDateString_def)

lemma GetDateString_nonzero:
  "\<not> IsZero (Date p) \<Longrightarrow> GetDateString p now = (Format_02_01_2006 (Date p), p)"
  by (simp add: GetDateString_def)

text \<open>
  Claim C10. \<^verbatim>\<open>GetDateString\<close> is not read-only. When \<^verbatim>\<open>Date\<close> is the zero time it
  stores the current time in the receiver before formatting, so the receiver differs
  afterwards (the current time is not the zero time); when \<^verbatim>\<open>Date\<close> is not the zero
  time the receiver is unchanged and the result is \<^verbatim>\<open>Date\<close> formatted as DD-MM-YYYY.
\<close>

theorem GetDateString_receiver:
  "(IsZero (Date p) \<longrightarrow>
      GetDateString p now = (Format_02_01_2006 now, p\<lparr>Date := now\<rparr>)) \<and>
   (IsZero (Date p) \<and> \<not> IsZero now \<longrightarrow> snd (GetDateString p now) \<noteq> p) \<and>
   (\<not> IsZero (Date p) \<longrightarrow>
      GetDateString p now = (Format_02_01_2006 (Date p), p))"
proof -
  have "snd (GetDateString p now) \<noteq> p" if z: "IsZero (Date p)" and n: "\<not> IsZero now"
  proof
    assume "snd (GetDateString p now) = p"
    then have "Date (p\<lparr>Date := now\<rparr>) = Date p"
      using z by (simp add: GetDateString_zero)
    then show False using z n by simp
  qed
  then show ?thesis
    by (simp add: GetDateString_zero GetDateString_nonzero)
qed

lemma Format_jan_15_2024: "Format_02_01_2006 jan_15_2024 = ''15-01-2024''"
  by code_simp

lemma Format_mar_1_2024: "Format_02_01_2006 mar_1_2024 = ''01-03-2024''"
  by code_simp

theorem GetDateString_receiver_witness:
  "GetDateString params_no_date jan_15_2024 =
     (''15-01-2024'', params_no_date\<lparr>Date := jan_15_2024\<rparr>) \<and>
   snd (GetDateString params_no_date jan_15_2024) \<noteq> params_no_date \<and>
   GetDateString (params_no_date\<lparr>Date := jan_15_2024\<rparr>) mar_1_2024 =
     (''15-01-2024'', params_no_date\<lparr>Date := jan_15_2024\<rparr>)"
proof -
  have z: "IsZero (Date params_no_date)"
    by (simp add: IsZero_def params_no_date_def)
  have n: "\<not> IsZero jan_15_2024"
    by (simp add: IsZero_def jan_15_2024_def)
  have n': "\<not> IsZero (Date (params_no_date\<lparr>Date := jan_15_2024\<rparr>))"
    using n by simp
  from GetDateString_receiver [of params_no_date jan_15_2024] z
  have "GetDateString params_no_date jan_15_2024 =
      (Format_02_01_2006 jan_15_2024, params_no_date\<lparr>Date := jan_15_2024\<rparr>)"
    by blast
  then have first: "GetDateString params_no_date jan_15_2024 =
      (''15-01-2024'', params_no_date\<lparr>Date := jan_15_2024\<rparr>)"
    by (simp add: Format_jan_15_2024)
  from GetDateString_receiver [of params_no_date jan_15_2024] z n
  have mutated: "snd (GetDateString params_no_date jan_15_2024) \<noteq> params_no_date"
    by blast
  from GetDateString_receiver [of "params_no_date\<lparr>Date := jan_15_2024\<rparr>" mar_1_2024] n'
  have "GetDateString (params_no_date\<lparr>Date := jan_15_2024\<rparr>) mar_1_2024 =
      (Format_02_01_2006 (Date (params_no_date\<lparr>Date := jan_15_2024\<rparr>)),
       params_no_date\<lparr>Date := jan_15_2024\<rparr>)"
    by blast
  then have second: "GetDateString (params_no_date\<lparr>Date := jan_15_2024\<rparr>) mar_1_2024 =
      (''15-01-2024'', params_no_date\<lparr>Date := jan_15_2024\<rparr>)"
    by (simp add: Format_jan_15_2024)
  show ?thesis
    by (intro conjI first mutated second)
qed

section \<open>The retry loop\<close>





lemma failed_attempts_step:
  "k \<le> n \<Longrightarrow> failed_attempts k n = attempt_events k @ failed_attempts (k + 1) n"
  by (simp add: failed_attempts_def upto_rec1)

lemma failed_attempts_empty: "n < k \<Longrightarrow> failed_attempts k n = []"
  by (simp add: failed_attempts_def)

lemma failed_attempts_snoc:
  "k \<le> n \<Longrightarrow> failed_attempts k n = failed_attempts k (n - 1) @ attempt_events n"
  by (simp add: failed_attempts_def upto_rec2)

text \<open>
  While the attempts \<open>k, \<dots>, n\<close> fail and the context stays silent, the loop goes through
  them one after the other and carries on at \<open>n + 1\<close> with the error of attempt \<open>n\<close>.
\<close>

lemma retry_loop_failed_run:
  assumes "\<forall>j. k \<le> j \<and> j \<le> n \<longrightarrow> fails_quietly env j"
    and "0 \<le> k" "k \<le> n" "n \<le> maxRetries"
  shows "retry_loop maxRetries env k lastErr =
           (fst (retry_loop maxRetries env (n + 1) (Some (projl (doRequest env n)))),
            failed_attempts k n @
            snd (retry_loop maxRetries env (n + 1) (Some (projl (doRequest env n)))))"
  using assms
proof (induction "nat (n - k)" arbitrary: k lastErr)
  case 0
  then have kn: "k = n" by simp
  from 0 have fq: "fails_quietly env n" by simp
  then obtain e where e: "doRequest env n = Inl e"
    by (auto simp: fails_quietly_def isl_def)
  show ?case
    using fq e 0(5) kn
    by (subst retry_loop.simps)
       (auto simp: fails_quietly_def failed_attempts_step failed_attempts_empty attempt_events_def
          split: prod.splits)
next
  case (Suc m)
  then have lt: "k < n" by simp
  from Suc.prems have fq: "fails_quietly env k" by simp
  then obtain e where e: "doRequest env k = Inl e"
    by (auto simp: fails_quietly_def isl_def)
  have IH: "retry_loop maxRetries env (k + 1) (Some e) =
           (fst (retry_loop maxRetries env (n + 1) (Some (projl (doRequest env n)))),
            failed_attempts (k + 1) n @
            snd (retry_loop maxRetries env (n + 1) (Some (projl (doRequest env n)))))"
    using Suc.hyps(2) Suc.prems lt by (intro Suc.hyps(1)) auto
  show ?case
    using fq e lt Suc.prems(4)
    by (subst retry_loop.simps)
       (auto simp: IH fails_quietly_def failed_attempts_step[of k n] attempt_events_def)
qed

lemma retry_loop_exhausted:
  "maxRetries < attempt \<Longrightarrow>
     retry_loop maxRetries env attempt lastErr =
       (Inl (AttemptsFailed (maxRetries + 1) lastErr), [])"
  by (subst retry_loop.simps) simp

lemma doRequestWithRetry_all_fail:
  assumes "0 \<le> maxRetries" and "\<forall>j. 0 \<le> j \<and> j \<le> maxRetries \<longrightarrow> fails_quietly env j"
  shows "doRequestWithRetry maxRetries env =
           (Inl (AttemptsFailed (maxRetries + 1) (Some (projl (doRequest env maxRetries)))),
            failed_attempts 0 maxRetries)"
  unfolding doRequestWithRetry_def
  using retry_loop_failed_run [OF assms(2) _ assms(1), of maxRetries None]
  by (simp add: retry_loop_exhausted)

lemma attempts_of_failed_attempts:
  "k \<le> n + 1 \<Longrightarrow> length (filter is_attempt (failed_attempts k n)) = nat (n + 1 - k)"
proof (induction "nat (n + 1 - k)" arbitrary: k)
  case 0
  then show ?case by (simp add: failed_attempts_empty)
next
  case (Suc m)
  then have le: "k \<le> n" by simp
  have "length (filter is_attempt (failed_attempts (k + 1) n)) = nat (n + 1 - (k + 1))"
    using Suc.hyps(2) le by (intro Suc.hyps(1)) auto
  then show ?case
    using le by (simp add: failed_attempts_step attempt_events_def nat_diff_distrib')
qed



lemma always_503_fails_quietly: "fails_quietly always_503 a"
  by (simp add: fails_quietly_def always_503_def doRequest_def)

lemma doRequest_always_503: "doRequest always_503 a = Inl (UnexpectedStatusCode 503 ''unavailable'')"
  by (simp add: always_503_def doRequest_def)




lemma failed_attempts_last: "0 \<le> n \<Longrightarrow> last (failed_attempts 0 n) = Attempt n"
  by (subst failed_attempts_snoc) (simp_all add: attempt_events_def)

text \<open>
  Claim C2. Attempt \<open>n\<close> is reached (the attempts before it failed while the context was
  silent, and the context does not fire during the backoff before attempt \<open>n\<close>), it
  fails, and the context has fired by then. Whatever the retry budget
  \<open>maxRetries \<ge> n\<close>, \<^verbatim>\<open>doRequestWithRetry\<close> returns the context's error, and the last
  thing it did is attempt \<open>n\<close>: it makes \<open>n + 1\<close> attempts, and no sleep or attempt
  follows the failed one.
\<close>

theorem doRequestWithRetry_cancellation:
  assumes "0 \<le> n" and "n \<le> maxRetries"
    and "\<forall>j. 0 \<le> j \<and> j < n \<longrightarrow> fails_quietly env j"
    and "0 < n \<longrightarrow> done_in_backoff env n = None"
    and "doRequest env n = Inl e"
    and "err_after env n = Some ce"
  shows "doRequestWithRetry maxRetries env = (Inl (Ctx ce), failed_attempts 0 n) \<and>
         last (snd (doRequestWithRetry maxRetries env)) = Attempt n \<and>
         length (filter is_attempt (snd (doRequestWithRetry maxRetries env))) = nat (n + 1)"
proof -
  have at_n: "retry_loop maxRetries env n lastErr = (Inl (Ctx ce), attempt_events n)" for lastErr
    using assms(2,4,5,6) by (subst retry_loop.simps) (simp add: attempt_events_def)
  have run: "doRequestWithRetry maxRetries env = (Inl (Ctx ce), failed_attempts 0 n)"
  proof (cases "n = 0")
    case True
    then show ?thesis
      using at_n [of None]
      by (simp add: doRequestWithRetry_def failed_attempts_step failed_attempts_empty)
  next
    case False
    then have pos: "0 \<le> n - 1" "n - 1 \<le> maxRetries" using assms(1,2) by simp_all
    have quiet: "\<forall>j. 0 \<le> j \<and> j \<le> n - 1 \<longrightarrow> fails_quietly env j"
      using assms(3) by simp
    have "retry_loop maxRetries env 0 None =
        (Inl (Ctx ce), failed_attempts 0 (n - 1) @ attempt_events n)"
      using retry_loop_failed_run [OF quiet _ pos(1) pos(2), of None] by (simp add: at_n)
    then show ?thesis
      using assms(1) by (simp add: doRequestWithRetry_def failed_attempts_snoc [of 0 n])
  qed
  show ?thesis
    using assms(1) by (simp add: run failed_attempts_last attempts_of_failed_attempts)
qed

theorem doRequestWithRetry_cancellation_witness:
  "doRequestWithRetry 3 deadline_during_retry_1 =
     (Inl (Ctx DeadlineExceeded), [Attempt 0, Sleep 100000000, Attempt 1]) \<and>
   last (snd (doRequestWithRetry 3 deadline_during_retry_1)) = Attempt 1 \<and>
   length (filter is_attempt (snd (doRequestWithRetry 3 deadline_during_retry_1))) = 2"
proof -
  have quiet: "\<forall>j. 0 \<le> j \<and> j < 1 \<longrightarrow> fails_quietly deadline_during_retry_1 j"
    by (simp add: fails_quietly_def deadline_during_retry_1_def doRequest_def)
  have silent: "0 < (1::int) \<longrightarrow> done_in_backoff deadline_during_retry_1 1 = None"
    by (simp add: deadline_during_retry_1_def)
  have fails: "doRequest deadline_during_retry_1 1 = Inl (UnexpectedStatusCode 503 ''unavailable'')"
    by (simp add: deadline_during_retry_1_def doRequest_def)
  have fired: "err_after deadline_during_retry_1 1 = Some DeadlineExceeded"
    by (simp add: deadline_during_retry_1_def)
  have tr: "failed_attempts 0 1 = [Attempt 0, Sleep 100000000, Attempt 1]"
    by (simp add: failed_attempts_def attempt_events_def upto_rec1 backoff_def wrap64_def
        Millisecond_def)
  from doRequestWithRetry_cancellation [of 1 3, OF _ _ quiet silent fails fired]
  show ?thesis
    by (simp add: tr)
qed

section \<open>The status code of the response body\<close>

lemma doRequestWithRetry_first_attempt_ok:
  "0 \<le> maxRetries \<Longrightarrow> doRequest env 0 = Inr body \<Longrightarrow>
     doRequestWithRetry maxRetries env = (Inr body, [Attempt 0])"
  unfolding doRequestWithRetry_def by (subst retry_loop.simps) simp

text \<open>
  The three operations that check the code return a payload only with code 200, and
  turn any other code into the API error with the remote status and code, with the
  events of the one \<^verbatim>\<open>doRequestWithRetry\<close> call and nothing after them.
\<close>

lemma GetPrayerTimes_checks_code:
  "(fst (GetPrayerTimes unmarshal maxRetries env) = Inr r \<longrightarrow> Code r = 200) \<and>
   (doRequestWithRetry maxRetries env = (Inr body, evs) \<and> unmarshal body = Inr r \<and>
      Code r \<noteq> 200 \<longrightarrow>
      GetPrayerTimes unmarshal maxRetries env = (Inl (APIError (Status r) (Code r)), evs))"
  by (auto simp: GetPrayerTimes_def split: prod.splits sum.splits if_splits)

lemma GetPrayerTimesByAddress_checks_code:
  "(fst (GetPrayerTimesByAddress unmarshal maxRetries env params) = Inr r \<longrightarrow> Code r = 200) \<and>
   (Address params \<noteq> '''' \<and> doRequestWithRetry maxRetries env = (Inr body, evs) \<and>
      unmarshal body = Inr r \<and> Code r \<noteq> 200 \<longrightarrow>
      GetPrayerTimesByAddress unmarshal maxRetries env params =
        (Inl (APIError (Status r) (Code r)), evs))"
  by (auto simp: GetPrayerTimesByAddress_def split: prod.splits sum.splits if_splits)

lemma GetQibla_checks_code:
  "(fst (GetQibla unmarshal maxRetries env) = Inr r \<longrightarrow> Code r = 200) \<and>
   (doRequestWithRetry maxRetries env = (Inr body, evs) \<and> unmarshal body = Inr r \<and>
      Code r \<noteq> 200 \<longrightarrow>
      GetQibla unmarshal maxRetries env = (Inl (APIError (Status r) (Code r)), evs))"
  by (auto simp: GetQibla_def split: prod.splits sum.splits if_splits)

lemma GetCalendarMonth_no_check:
  "doRequestWithRetry maxRetries env = (Inr body, evs) \<Longrightarrow> unmarshal body = Inr r \<Longrightarrow>
     GetCalendarMonth unmarshal maxRetries env = (Inr (Data r), evs)"
  by (simp add: GetCalendarMonth_def)

lemma rejecting_server_first_attempt: "doRequest rejecting_server 0 = Inr ''code-400-body''"
  by (simp add: rejecting_server_def doRequest_def)

lemma GetPrayerTimes_rejected:
  "GetPrayerTimes unmarshal_times 3 rejecting_server =
     (Inl (APIError ''Bad Request'' 400), [Attempt 0])"
  by (simp add: GetPrayerTimes_def unmarshal_times_def
      doRequestWithRetry_first_attempt_ok [OF _ rejecting_server_first_attempt])

text \<open>
  Claim C4, at the input where the code departs from it. The server answers HTTP 200
  with a body whose code is 400. \<^verbatim>\<open>GetCalendarMonth\<close> decodes \<^verbatim>\<open>Code\<close> and
  \<^verbatim>\<open>Status\<close> and never looks at them: it returns the payload. (\<^verbatim>\<open>GetPrayerTimes\<close>
  on the same answer returns the API error, see \<open>GetPrayerTimes_rejected\<close>.)
\<close>

theorem GetCalendarMonth_returns_rejected_payload:
  "GetCalendarMonth unmarshal_calendar 3 rejecting_server = (Inr [''day-1''], [Attempt 0])"
  by (simp add: GetCalendarMonth_def unmarshal_calendar_def
      doRequestWithRetry_first_attempt_ok [OF _ rejecting_server_first_attempt])

section \<open>The cache\<close>

lemma path_dir_getPath: "CHR ''/'' \<notin> set k \<Longrightarrow> path_dir (getPath c k) = dir c"
proof -
  assume k: "CHR ''/'' \<notin> set k"
  have "dropWhile (\<lambda>c. c \<noteq> CHR ''/'') (rev (k @ ''.json'') @ CHR ''/'' # rev (dir c)) =
        CHR ''/'' # rev (dir c)"
    using k by (subst dropWhile_append2) auto
  then show ?thesis
    by (simp add: path_dir_def getPath_def)
qed



lemma Get_expired:
  "enabled c \<Longrightarrow> files fs (getPath c k) = Some content \<Longrightarrow>
   unmarshal_entry js content = Inr entry \<Longrightarrow> After now (ExpiresAt entry) \<Longrightarrow>
     Get js c k now fs = (None, fs\<lparr>files := (files fs)(getPath c k := None)\<rparr>)"
  by (simp add: Get_def ReadFile_def Remove_def)

lemma Get_hit:
  "enabled c \<Longrightarrow> files fs (getPath c k) = Some content \<Longrightarrow>
   unmarshal_entry js content = Inr entry \<Longrightarrow> \<not> After now (ExpiresAt entry) \<Longrightarrow>
     Get js c k now fs = (Some (EntryData entry), fs)"
  by (simp add: Get_def ReadFile_def)

lemma Get_disabled: "\<not> enabled c \<Longrightarrow> Get js c k now fs = (None, fs)"
  by (simp add: Get_def)


lemma getPath_cache_on: "getPath cache_on k = ''cache/'' @ k @ ''.json''"
  by (simp add: getPath_def cache_on_def)




lemma path_base_getPath: "CHR ''/'' \<notin> set k \<Longrightarrow> path_base (getPath c k) = k @ ''.json''"
proof -
  assume k: "CHR ''/'' \<notin> set k"
  have "takeWhile (\<lambda>c. c \<noteq> CHR ''/'') (rev (k @ ''.json'') @ CHR ''/'' # rev (dir c)) =
        rev (k @ ''.json'')"
    using k by (subst takeWhile_append2) auto
  then show ?thesis
    by (simp add: path_base_def getPath_def)
qed

lemma Set_enabled_written:
  assumes "enabled c"
    and "marshal_entry js \<lparr>EntryData = v, CreatedAt = now1,
           ExpiresAt = Add now2 (ttl c), EntryKey = k\<rparr> = Inr b"
    and "path_dir (getPath c k) \<in> dirs fs"
    and "getPath c k \<notin> dirs fs"
    and "length (path_base (getPath c k)) \<le> 255"
    and "denied fs (getPath c k) = None"
  shows "Set js c k v now1 now2 fs = (None, fs\<lparr>files := (files fs)(getPath c k \<mapsto> b)\<rparr>)"
  using assms by (simp add: Set_def WriteFile_def)

lemma Set_success_file:
  assumes "enabled c" and "Set js c k v now1 now2 fs = (None, fs')"
  shows "\<exists>b. marshal_entry js \<lparr>EntryData = v, CreatedAt = now1,
                 ExpiresAt = Add now2 (ttl c), EntryKey = k\<rparr> = Inr b \<and>
             fs' = fs\<lparr>files := (files fs)(getPath c k \<mapsto> b)\<rparr>"
  using assms
  by (auto simp: Set_def WriteFile_def split: sum.splits if_splits option.splits)

text \<open>
  Claim C7, as amended. An enabled cache with a TTL \<open>ttl > 0\<close>, and \<^verbatim>\<open>Set(k, v)\<close> has
  succeeded (\<open>now2\<close> is the clock reading its expiry is counted from). The JSON library
  reads an envelope it has written, with the expiry that was stored and with the
  payload in the form \<open>compacted\<close> in which it stores a raw message (for
  \<^verbatim>\<open>encoding/json\<close> the compact form of the JSON). Then a \<^verbatim>\<open>Get(k)\<close> at that same
  instant, and at any time that is not past \<open>now2 + ttl\<close>, returns found = true and
  the payload in that form, \<open>compacted v\<close>: this is \<open>v\<close> itself when \<open>v\<close> is in that
  form already. A \<^verbatim>\<open>Get(k)\<close> at a time past \<open>now2 + ttl\<close> returns not-found.
\<close>

theorem Set_then_Get:
  assumes "enabled c" and "0 < ttl c"
    and "Set js c k v now1 now2 fs = (None, fs')"
    and "\<forall>e b. marshal_entry js e = Inr b \<longrightarrow>
           (\<exists>e'. unmarshal_entry js b = Inr e' \<and>
                 nsec (ExpiresAt e') = nsec (ExpiresAt e) \<and>
                 EntryData e' = compacted (EntryData e))"
  shows "Get js c k now2 fs' = (Some (compacted v), fs') \<and>
         (\<not> After now (Add now2 (ttl c)) \<longrightarrow>
            Get js c k now fs' = (Some (compacted v), fs')) \<and>
         (After now (Add now2 (ttl c)) \<longrightarrow> fst (Get js c k now fs') = None) \<and>
         (compacted v = v \<longrightarrow> Get js c k now2 fs' = (Some v, fs'))"
proof -
  let ?entry = "\<lparr>EntryData = v, CreatedAt = now1, ExpiresAt = Add now2 (ttl c), EntryKey = k\<rparr>"
  from Set_success_file [OF assms(1,3)] obtain b
    where b: "marshal_entry js ?entry = Inr b"
      and fs': "fs' = fs\<lparr>files := (files fs)(getPath c k \<mapsto> b)\<rparr>"
    by blast
  have stored: "files fs' (getPath c k) = Some b" by (simp add: fs')
  from assms(4) b obtain e'
    where decoded: "unmarshal_entry js b = Inr e'"
      and expiry: "nsec (ExpiresAt e') = nsec (ExpiresAt ?entry)"
      and payload: "EntryData e' = compacted (EntryData ?entry)"
    by blast
  have after: "After t (ExpiresAt e') = After t (Add now2 (ttl c))" for t
    using expiry by (simp add: After_def)
  have fresh: "\<not> After now2 (ExpiresAt e')"
    using assms(2) by (simp add: after) (simp add: After_def Add_def)
  have 1: "Get js c k now2 fs' = (Some (compacted v), fs')"
    using Get_hit [OF assms(1) stored decoded fresh] payload by simp
  have 2: "Get js c k now fs' = (Some (compacted v), fs')"
    if "\<not> After now (Add now2 (ttl c))"
    using Get_hit [OF assms(1) stored decoded, of now] that payload by (simp add: after)
  have 3: "fst (Get js c k now fs') = None" if "After now (Add now2 (ttl c))"
    using Get_expired [OF assms(1) stored decoded, of now] that by (simp add: after)
  show ?thesis
    using 1 2 3 by simp
qed

lemma toy_json_reads_back:
  "\<forall>e b. marshal_entry toy_json e = Inr b \<longrightarrow>
     (\<exists>e'. unmarshal_entry toy_json b = Inr e' \<and>
           nsec (ExpiresAt e') = nsec (ExpiresAt e) \<and>
           EntryData e' = toy_compact (EntryData e))"
  by (auto simp: toy_json_def toy_compact_def entry_a_def entry_b_def entry_c_def
      entry_long_def split: if_splits)

lemma Set_spaced_payload:
  "Set toy_json cache_on ''00bb'' ''[3, 4]'' mar_1_2024 mar_1_2024 disk = (None, disk_b)"
  by (simp add: Set_def WriteFile_def path_dir_def path_base_def getPath_def cache_on_def
      toy_json_def entry_a_def entry_b_def entry_c_def disk_def disk_b_def)

lemma Set_compact_payload:
  "Set toy_json cache_on ''00bb'' ''[3,4]'' mar_1_2024 mar_1_2024 disk = (None, disk_b)"
  by (simp add: Set_def WriteFile_def path_dir_def path_base_def getPath_def cache_on_def
      toy_json_def entry_a_def entry_b_def entry_c_def disk_def disk_b_def)

theorem Set_then_Get_witness:
  "Set toy_json cache_on ''00bb'' ''[3,4]'' mar_1_2024 mar_1_2024 disk = (None, disk_b) \<and>
   Get toy_json cache_on ''00bb'' mar_1_2024 disk_b = (Some ''[3,4]'', disk_b) \<and>
   fst (Get toy_json cache_on ''00bb'' (Add mar_1_2024 (DefaultTTL + 1)) disk_b) = None"
proof -
  have en: "enabled cache_on" and pos: "0 < ttl cache_on"
    by (simp_all add: cache_on_def DefaultTTL_def)
  have late: "After (Add mar_1_2024 (DefaultTTL + 1)) (Add mar_1_2024 (ttl cache_on))"
    by (simp add: After_def Add_def cache_on_def)
  have same: "toy_compact ''[3,4]'' = ''[3,4]''"
    by (simp add: toy_compact_def)
  from Set_then_Get [OF en pos Set_compact_payload toy_json_reads_back,
      of "Add mar_1_2024 (DefaultTTL + 1)"] late same
  show ?thesis
    by (simp add: Set_compact_payload)
qed

text \<open>
  The claim as stated, for every value \<open>v\<close>, fails for a value that is JSON with white
  space in it: \<^verbatim>\<open>Set\<close> succeeds, the envelope holds the payload in compact form (as
  \<^verbatim>\<open>json.Marshal\<close> writes a \<^verbatim>\<open>json.RawMessage\<close>), and the immediate \<^verbatim>\<open>Get\<close> finds the
  entry and returns \<^verbatim>\<open>[3,4]\<close>, which is not the \<^verbatim>\<open>[3, 4]\<close> that was set.
\<close>

theorem Set_then_Get_counterexample:
  "Set toy_json cache_on ''00bb'' ''[3, 4]'' mar_1_2024 mar_1_2024 disk = (None, disk_b) \<and>
   Get toy_json cache_on ''00bb'' mar_1_2024 disk_b = (Some ''[3,4]'', disk_b) \<and>
   ''[3,4]'' \<noteq> ''[3, 4]''"
proof -
  have "Get toy_json cache_on ''00bb'' mar_1_2024 disk_b = (Some ''[3,4]'', disk_b)"
    by (simp add: Get_def ReadFile_def getPath_def cache_on_def disk_b_def disk_def
        toy_json_def entry_b_def After_def Add_def DefaultTTL_def)
  then show ?thesis
    by (simp add: Set_spaced_payload)
qed

lemma New_creates_dir:
  assumes "New d opts fs0 = Inr (c, fs1)" and "enabled c"
  shows "dir c \<in> dirs fs1"
  using assms
  by (auto simp: New_def MkdirAll_def Let_def split: if_splits sum.splits option.splits)

text \<open>
  Claim C9, as amended. For every cache that \<^verbatim>\<open>New\<close> has constructed with caching
  enabled, \<^verbatim>\<open>New\<close> has created the cache directory, whether it existed before or not;
  \<^verbatim>\<open>Set\<close> never creates it. From then on (on any file system \<open>fs\<close> that still has the
  directories \<^verbatim>\<open>New\<close> left), \<^verbatim>\<open>Set(key, data)\<close> does not fail for want of the
  directory. It succeeds when \<^verbatim>\<open>json.Marshal\<close> accepts the data in the entry and the
  operating system accepts the write: the key is a file name (no path separator) of at
  most 250 bytes, so that the entry file's name has at most 255, the entry path is not
  a directory, and nothing else is refused. Then it writes the serialised entry
  \<open>{data, createdAt = now1, expiresAt = now2 + ttl, key}\<close> to the entry file of the key,
  whatever that file held before, and changes nothing else.
\<close>

theorem Set_writes_entry:
  assumes "New d opts fs0 = Inr (c, fs1)" and "enabled c"
    and "dirs fs1 \<subseteq> dirs fs"
    and "CHR ''/'' \<notin> set k" and "length k \<le> 250"
    and "getPath c k \<notin> dirs fs"
    and "denied fs (getPath c k) = None"
    and "marshal_entry js \<lparr>EntryData = v, CreatedAt = now1,
           ExpiresAt = Add now2 (ttl c), EntryKey = k\<rparr> = Inr b"
  shows "dir c \<in> dirs fs1 \<and>
         Set js c k v now1 now2 fs = (None, fs\<lparr>files := (files fs)(getPath c k \<mapsto> b)\<rparr>) \<and>
         files (snd (Set js c k v now1 now2 fs)) (getPath c k) = Some b"
proof -
  have d: "dir c \<in> dirs fs1" by (rule New_creates_dir [OF assms(1,2)])
  then have parent: "path_dir (getPath c k) \<in> dirs fs"
    using assms(3,4) by (auto simp: path_dir_getPath)
  have name: "length (path_base (getPath c k)) \<le> 255"
    using assms(4,5) by (simp add: path_base_getPath)
  from Set_enabled_written [OF assms(2) assms(8) parent assms(6) name assms(7)] d
  show ?thesis by simp
qed

lemma New_default_empty_disk:
  "New ''cache'' [] empty_disk = Inr (cache_on, empty_disk\<lparr>dirs := {''cache''}\<rparr>)"
  by (simp add: New_def MkdirAll_def empty_disk_def cache_on_def)

theorem Set_writes_entry_witness:
  "New ''cache'' [] empty_disk = Inr (cache_on, empty_disk\<lparr>dirs := {''cache''}\<rparr>) \<and>
   ''cache'' \<notin> dirs empty_disk \<and>
   Set toy_json cache_on ''00aa'' ''[1,2]'' jan_15_2024 jan_15_2024
       (empty_disk\<lparr>dirs := {''cache''}\<rparr>) =
     (None, empty_disk\<lparr>dirs := {''cache''}, files := [''cache/00aa.json'' \<mapsto> ''envelope-a'']\<rparr>) \<and>
   files disk ''cache/00bb.json'' = Some ''not an envelope'' \<and>
   Set toy_json cache_on ''00bb'' ''[3,4]'' mar_1_2024 mar_1_2024 disk = (None, disk_b) \<and>
   files disk_b ''cache/00bb.json'' = Some ''envelope-b''"
proof -
  have en: "enabled cache_on" by (simp add: cache_on_def)
  have a: "marshal_entry toy_json \<lparr>EntryData = ''[1,2]'', CreatedAt = jan_15_2024,
      ExpiresAt = Add jan_15_2024 (ttl cache_on), EntryKey = ''00aa''\<rparr> = Inr ''envelope-a''"
    by (simp add: toy_json_def entry_a_def cache_on_def)
  have b: "marshal_entry toy_json \<lparr>EntryData = ''[3,4]'', CreatedAt = mar_1_2024,
      ExpiresAt = Add mar_1_2024 (ttl cache_on), EntryKey = ''00bb''\<rparr> = Inr ''envelope-b''"
    by (simp add: toy_json_def entry_a_def entry_b_def cache_on_def mar_1_2024_def
        jan_15_2024_def)
  have sub: "dirs (empty_disk\<lparr>dirs := {''cache''}\<rparr>) \<subseteq> dirs disk"
    by (simp add: disk_def)
  have free_a: "getPath cache_on ''00aa'' \<notin> dirs (empty_disk\<lparr>dirs := {''cache''}\<rparr>)"
    "denied (empty_disk\<lparr>dirs := {''cache''}\<rparr>) (getPath cache_on ''00aa'') = None"
    by (simp_all add: getPath_cache_on empty_disk_def)
  have free_b: "getPath cache_on ''00bb'' \<notin> dirs disk"
    "denied disk (getPath cache_on ''00bb'') = None"
    by (simp_all add: getPath_cache_on disk_def)
  from Set_writes_entry [OF New_default_empty_disk en subset_refl _ _ free_a a]
  have 1: "Set toy_json cache_on ''00aa'' ''[1,2]'' jan_15_2024 jan_15_2024
       (empty_disk\<lparr>dirs := {''cache''}\<rparr>) =
     (None, empty_disk\<lparr>dirs := {''cache''}, files := [''cache/00aa.json'' \<mapsto> ''envelope-a'']\<rparr>)"
    by (simp add: getPath_cache_on empty_disk_def)
  from Set_writes_entry [OF New_default_empty_disk en sub _ _ free_b b]
  have 2: "Set toy_json cache_on ''00bb'' ''[3,4]'' mar_1_2024 mar_1_2024 disk = (None, disk_b)"
    by (simp add: getPath_cache_on disk_b_def)
  have 3: "''cache'' \<notin> dirs empty_disk"
    by (simp add: empty_disk_def)
  have 4: "files disk ''cache/00bb.json'' = Some ''not an envelope''"
    by (simp add: disk_def)
  have 5: "files disk_b ''cache/00bb.json'' = Some ''envelope-b''"
    by (simp add: disk_b_def)
  show ?thesis
    by (intro conjI New_default_empty_disk 1 2 3 4 5)
qed

lemma long_key_differs: "length s < 251 \<Longrightarrow> long_key \<noteq> s \<and> s \<noteq> long_key"
  by (auto simp: long_key_def)

lemma long_key_no_separator: "CHR ''/'' \<notin> set long_key"
  by (simp add: long_key_def)

lemma marshal_entry_long:
  "marshal_entry toy_json \<lparr>EntryData = ''[1,2]'', CreatedAt = jan_15_2024,
     ExpiresAt = Add jan_15_2024 (ttl cache_on), EntryKey = long_key\<rparr> = Inr ''envelope-long''"
  by (simp add: toy_json_def entry_a_def entry_b_def entry_c_def entry_long_def cache_on_def
      long_key_differs)

lemma Set_long_key:
  "Set toy_json cache_on long_key ''[1,2]'' jan_15_2024 jan_15_2024
       (empty_disk\<lparr>dirs := {''cache''}\<rparr>) =
     (Some (Wrapped ''failed to write cache file'' (Transport ''file name too long'')),
      empty_disk\<lparr>dirs := {''cache''}\<rparr>)"
proof -
  have en: "enabled cache_on" and d: "dir cache_on = ''cache''"
    by (simp_all add: cache_on_def)
  have parent: "path_dir (getPath cache_on long_key) = ''cache''"
    by (simp add: path_dir_getPath long_key_no_separator d)
  have name: "length (path_base (getPath cache_on long_key)) = 256"
    by (simp add: path_base_getPath long_key_no_separator) (simp add: long_key_def)
  have nodir: "getPath cache_on long_key \<noteq> ''cache''"
    by (simp add: getPath_cache_on)
  show ?thesis
    using en parent name nodir
    by (simp add: Set_def WriteFile_def marshal_entry_long)
qed

text \<open>
  The claim as stated, for every enabled cache, every key and all data, fails in these
  ways. A cache constructed disabled and enabled afterwards (\<^verbatim>\<open>SetEnabled(true)\<close>) has
  no directory, since \<^verbatim>\<open>New\<close> creates it only when the cache is enabled and \<^verbatim>\<open>Set\<close>
  never does: the write fails. Data that \<^verbatim>\<open>json.Marshal\<close> rejects as raw JSON is not
  written. A key with a path separator names a file in a directory nobody created. A
  key of 251 bytes gives a file name of 256 bytes, which the file system refuses. The
  write fails when the entry path is a directory, and when the operating system denies
  it.
\<close>

theorem Set_fails_counterexample:
  "New ''cache'' [WithEnabled False] empty_disk = Inr (SetEnabled cache_on False, empty_disk) \<and>
   enabled (SetEnabled (SetEnabled cache_on False) True) \<and>
   Set toy_json (SetEnabled (SetEnabled cache_on False) True) ''00aa'' ''[1,2]''
       jan_15_2024 jan_15_2024 empty_disk =
     (Some (Wrapped ''failed to write cache file'' (Transport ''no such file or directory'')),
      empty_disk) \<and>
   Set toy_json cache_on ''00aa'' ''{not json'' jan_15_2024 jan_15_2024
       (empty_disk\<lparr>dirs := {''cache''}\<rparr>) =
     (Some (Wrapped ''failed to marshal cache entry'' (Transport ''invalid character'')),
      empty_disk\<lparr>dirs := {''cache''}\<rparr>) \<and>
   Set toy_json cache_on ''a/b'' ''[1,2]'' jan_15_2024 jan_15_2024
       (empty_disk\<lparr>dirs := {''cache''}\<rparr>) =
     (Some (Wrapped ''failed to write cache file'' (Transport ''no such file or directory'')),
      empty_disk\<lparr>dirs := {''cache''}\<rparr>) \<and>
   Set toy_json cache_on long_key ''[1,2]'' jan_15_2024 jan_15_2024
       (empty_disk\<lparr>dirs := {''cache''}\<rparr>) =
     (Some (Wrapped ''failed to write cache file'' (Transport ''file name too long'')),
      empty_disk\<lparr>dirs := {''cache''}\<rparr>) \<and>
   Set toy_json cache_on ''00aa'' ''[1,2]'' jan_15_2024 jan_15_2024
       (empty_disk\<lparr>dirs := {''cache'', ''cache/00aa.json''}\<rparr>) =
     (Some (Wrapped ''failed to write cache file'' (Transport ''is a directory'')),
      empty_disk\<lparr>dirs := {''cache'', ''cache/00aa.json''}\<rparr>) \<and>
   Set toy_json cache_on ''00aa'' ''[1,2]'' jan_15_2024 jan_15_2024
       (empty_disk\<lparr>dirs := {''cache''}, denied := (\<lambda>p. Some ''permission denied'')\<rparr>) =
     (Some (Wrapped ''failed to write cache file'' (Transport ''permission denied'')),
      empty_disk\<lparr>dirs := {''cache''}, denied := (\<lambda>p. Some ''permission denied'')\<rparr>)"
proof -
  have rest: "New ''cache'' [WithEnabled False] empty_disk =
       Inr (SetEnabled cache_on False, empty_disk) \<and>
   enabled (SetEnabled (SetEnabled cache_on False) True) \<and>
   Set toy_json (SetEnabled (SetEnabled cache_on False) True) ''00aa'' ''[1,2]''
       jan_15_2024 jan_15_2024 empty_disk =
     (Some (Wrapped ''failed to write cache file'' (Transport ''no such file or directory'')),
      empty_disk) \<and>
   Set toy_json cache_on ''00aa'' ''{not json'' jan_15_2024 jan_15_2024
       (empty_disk\<lparr>dirs := {''cache''}\<rparr>) =
     (Some (Wrapped ''failed to marshal cache entry'' (Transport ''invalid character'')),
      empty_disk\<lparr>dirs := {''cache''}\<rparr>) \<and>
   Set toy_json cache_on ''a/b'' ''[1,2]'' jan_15_2024 jan_15_2024
       (empty_disk\<lparr>dirs := {''cache''}\<rparr>) =
     (Some (Wrapped ''failed to write cache file'' (Transport ''no such file or directory'')),
      empty_disk\<lparr>dirs := {''cache''}\<rparr>) \<and>
   Set toy_json cache_on ''00aa'' ''[1,2]'' jan_15_2024 jan_15_2024
       (empty_disk\<lparr>dirs := {''cache'', ''cache/00aa.json''}\<rparr>) =
     (Some (Wrapped ''failed to write cache file'' (Transport ''is a directory'')),
      empty_disk\<lparr>dirs := {''cache'', ''cache/00aa.json''}\<rparr>) \<and>
   Set toy_json cache_on ''00aa'' ''[1,2]'' jan_15_2024 jan_15_2024
       (empty_disk\<lparr>dirs := {''cache''}, denied := (\<lambda>p. Some ''permission denied'')\<rparr>) =
     (Some (Wrapped ''failed to write cache file'' (Transport ''permission denied'')),
      empty_disk\<lparr>dirs := {''cache''}, denied := (\<lambda>p. Some ''permission denied'')\<rparr>)"
    by (simp add: New_def WithEnabled_def SetEnabled_def Set_def WriteFile_def path_dir_def
        path_base_def getPath_def cache_on_def toy_json_def entry_a_def entry_b_def entry_c_def
        entry_long_def empty_disk_def long_key_differs)
  show ?thesis
    using rest Set_long_key by blast
qed

section \<open>The caching client and a hit that does not deserialize\<close>

lemma Get_Some:
  assumes "Get js c k now fs = (Some content, fs1)"
  shows "fs1 = fs \<and> enabled c \<and> (\<exists>stored. files fs (getPath c k) = Some stored)"
  using assms
  by (auto simp: Get_def ReadFile_def Let_def split: if_splits sum.splits option.splits)

lemma failed_attempts_0_3:
  "failed_attempts 0 3 =
     [Attempt 0, Sleep 100000000, Attempt 1, Sleep 400000000, Attempt 2,
      Sleep 900000000, Attempt 3]"
  by (simp add: failed_attempts_def attempt_events_def upto_rec1 backoff_def wrap64_def
      Millisecond_def)

lemma GetPrayerTimes_always_503:
  "GetPrayerTimes unmarshal 3 always_503 =
     (Inl (Wrapped ''failed to fetch prayer times''
            (AttemptsFailed 4 (Some (UnexpectedStatusCode 503 ''unavailable'')))),
      [Attempt 0, Sleep 100000000, Attempt 1, Sleep 400000000, Attempt 2,
       Sleep 900000000, Attempt 3])"
proof -
  have "doRequestWithRetry 3 always_503 =
      (Inl (AttemptsFailed 4 (Some (UnexpectedStatusCode 503 ''unavailable''))),
       failed_attempts 0 3)"
    by (subst doRequestWithRetry_all_fail)
       (simp_all add: always_503_fails_quietly doRequest_always_503)
  then show ?thesis
    by (simp add: GetPrayerTimes_def failed_attempts_0_3)
qed

text \<open>
  Claim C8, as amended. When \<^verbatim>\<open>CachedClient.GetPrayerTimes\<close> gets a cache hit whose
  bytes fail to deserialize as a \<^verbatim>\<open>PrayerTimesResponse\<close>, it treats the hit as a miss
  and falls through to the remote fetch. \<^verbatim>\<open>Get\<close> has not purged the entry: a hit
  leaves the file system as it was, with the entry file in place. The entry stays
  when the remote fetch fails, and it is the later \<^verbatim>\<open>Set\<close> of the fetched response
  that replaces it.
\<close>

theorem CachedClient_GetPrayerTimes_undecodable_hit:
  assumes "cache cc = Some c" and "\<not> bypass cc"
    and "Get js c (times_key lib params (at_date clk)) (at_get clk) fs = (Some content, fs1)"
    and "unmarshal content = Inl err"
  shows "fs1 = fs \<and>
         (\<exists>stored. files fs (getPath c (times_key lib params (at_date clk))) = Some stored) \<and>
         CachedClient_GetPrayerTimes lib js unmarshal marshal cc env params clk fs =
           (case GetPrayerTimes unmarshal (retries cc) env of
              (Inl e, evs) \<Rightarrow> (Inl e, evs, fs)
            | (Inr result, evs) \<Rightarrow>
                (case marshal result of
                   Inl e \<Rightarrow> (Inr result, evs, fs)
                 | Inr fresh \<Rightarrow>
                     (Inr result, evs,
                      snd (Set js c (times_key lib params (at_date clk)) fresh
                             (at_created clk) (at_expiry clk) fs))))"
proof -
  from Get_Some [OF assms(3)]
  have same: "fs1 = fs" and en: "enabled c"
    and there: "\<exists>stored. files fs (getPath c (times_key lib params (at_date clk))) = Some stored"
    by blast+
  have "CachedClient_GetPrayerTimes lib js unmarshal marshal cc env params clk fs =
           (case GetPrayerTimes unmarshal (retries cc) env of
              (Inl e, evs) \<Rightarrow> (Inl e, evs, fs)
            | (Inr result, evs) \<Rightarrow>
                (case marshal result of
                   Inl e \<Rightarrow> (Inr result, evs, fs)
                 | Inr fresh \<Rightarrow>
                     (Inr result, evs,
                      snd (Set js c (times_key lib params (at_date clk)) fresh
                             (at_created clk) (at_expiry clk) fs))))"
    using assms(1,2,4) en assms(3) [unfolded same]
    by (simp add: CachedClient_GetPrayerTimes_def IsEnabled_def)
  then show ?thesis using same there by blast
qed

lemma Get_disk_with_entry:
  "Get toy_json cache_on k jan_15_2024 (disk_with_entry k) =
     (Some ''[1,2]'', disk_with_entry k)"
  by (simp add: Get_def ReadFile_def disk_with_entry_def toy_json_def cache_on_def
      entry_a_def After_def Add_def DefaultTTL_def)

lemma unmarshal_times_payload_a:
  "unmarshal_times ''[1,2]'' = Inl ''cannot unmarshal array into Go value''"
  by (simp add: unmarshal_times_def)

theorem CachedClient_GetPrayerTimes_undecodable_hit_witness:
  "\<forall>lib. CachedClient_GetPrayerTimes lib toy_json unmarshal_times marshal_times caching_client
       always_503 params_no_date clock_jan_15 (disk_with_entry (key_jan_15 lib)) =
     (Inl (Wrapped ''failed to fetch prayer times''
            (AttemptsFailed 4 (Some (UnexpectedStatusCode 503 ''unavailable'')))),
      [Attempt 0, Sleep 100000000, Attempt 1, Sleep 400000000, Attempt 2,
       Sleep 900000000, Attempt 3],
      disk_with_entry (key_jan_15 lib))"
proof
  fix lib
  have c: "cache caching_client = Some cache_on" and b: "\<not> bypass caching_client"
    and r: "retries caching_client = 3"
    by (simp_all add: caching_client_def)
  have hit: "Get toy_json cache_on (times_key lib params_no_date (at_date clock_jan_15))
      (at_get clock_jan_15) (disk_with_entry (key_jan_15 lib)) =
      (Some ''[1,2]'', disk_with_entry (key_jan_15 lib))"
    using Get_disk_with_entry [of "key_jan_15 lib"]
    by (simp add: clock_jan_15_def key_jan_15_def)
  from CachedClient_GetPrayerTimes_undecodable_hit
    [where unmarshal = unmarshal_times and marshal = marshal_times and env = always_503,
      OF c b hit unmarshal_times_payload_a]
  show "CachedClient_GetPrayerTimes lib toy_json unmarshal_times marshal_times caching_client
       always_503 params_no_date clock_jan_15 (disk_with_entry (key_jan_15 lib)) =
     (Inl (Wrapped ''failed to fetch prayer times''
            (AttemptsFailed 4 (Some (UnexpectedStatusCode 503 ''unavailable'')))),
      [Attempt 0, Sleep 100000000, Attempt 1, Sleep 400000000, Attempt 2,
       Sleep 900000000, Attempt 3],
      disk_with_entry (key_jan_15 lib))"
    by (simp add: r GetPrayerTimes_always_503)
qed

text \<open>
  The claim as stated fails: the entry whose payload does not deserialize is a hit of
  \<^verbatim>\<open>Get\<close> (its envelope parses and has not expired), and \<^verbatim>\<open>Get\<close> deletes nothing on
  a hit. Here the remote fetch fails as well, and after the whole call the entry file is
  still in the cache.
\<close>

theorem CachedClient_GetPrayerTimes_purge_counterexample:
  "\<forall>lib.
     Get toy_json cache_on (key_jan_15 lib) jan_15_2024 (disk_with_entry (key_jan_15 lib)) =
       (Some ''[1,2]'', disk_with_entry (key_jan_15 lib)) \<and>
     unmarshal_times ''[1,2]'' = Inl ''cannot unmarshal array into Go value'' \<and>
     files (snd (Get toy_json cache_on (key_jan_15 lib) jan_15_2024
                   (disk_with_entry (key_jan_15 lib))))
       (getPath cache_on (key_jan_15 lib)) = Some ''envelope-a'' \<and>
     snd (snd (CachedClient_GetPrayerTimes lib toy_json unmarshal_times marshal_times
                 caching_client always_503 params_no_date clock_jan_15
                 (disk_with_entry (key_jan_15 lib)))) = disk_with_entry (key_jan_15 lib)"
proof
  fix lib
  let ?k = "key_jan_15 lib"
  have hit: "Get toy_json cache_on ?k jan_15_2024 (disk_with_entry ?k) =
      (Some ''[1,2]'', disk_with_entry ?k)"
    by (rule Get_disk_with_entry)
  have still: "files (disk_with_entry ?k) (getPath cache_on ?k) = Some ''envelope-a''"
    by (simp add: disk_with_entry_def)
  have en: "enabled cache_on" by (simp add: cache_on_def)
  have call: "CachedClient_GetPrayerTimes lib toy_json unmarshal_times marshal_times
      caching_client always_503 params_no_date clock_jan_15 (disk_with_entry ?k) =
     (Inl (Wrapped ''failed to fetch prayer times''
            (AttemptsFailed 4 (Some (UnexpectedStatusCode 503 ''unavailable'')))),
      [Attempt 0, Sleep 100000000, Attempt 1, Sleep 400000000, Attempt 2,
       Sleep 900000000, Attempt 3],
      disk_with_entry ?k)"
    using hit en
    by (simp add: CachedClient_GetPrayerTimes_def caching_client_def clock_jan_15_def
        IsEnabled_def key_jan_15_def unmarshal_times_payload_a GetPrayerTimes_always_503)
  show "Get toy_json cache_on ?k jan_15_2024 (disk_with_entry ?k) =
       (Some ''[1,2]'', disk_with_entry ?k) \<and>
     unmarshal_times ''[1,2]'' = Inl ''cannot unmarshal array into Go value'' \<and>
     files (snd (Get toy_json cache_on ?k jan_15_2024 (disk_with_entry ?k)))
       (getPath cache_on ?k) = Some ''envelope-a'' \<and>
     snd (snd (CachedClient_GetPrayerTimes lib toy_json unmarshal_times marshal_times
                 caching_client always_503 params_no_date clock_jan_15
                 (disk_with_entry ?k))) = disk_with_entry ?k"
    by (simp add: hit still call unmarshal_times_payload_a)
qed

section \<open>Cache keys\<close>

lemma key_material_split:
  "key_material lib (xs @ a # ys) = key_material lib xs @ fmt_v lib a @ key_material lib ys"
  by (simp add: key_material_def)

lemma GetDateString_date_set:
  "\<not> IsZero (Date p) \<Longrightarrow> fst (GetDateString p now) = Format_02_01_2006 (Date p)"
  by (simp add: GetDateString_nonzero)

text \<open>
  Claim C5, as amended. The key is a function of the parameters: the same parameters
  give the same key, and with a \<^verbatim>\<open>Date\<close> that is set no clock is read (a zero \<^verbatim>\<open>Date\<close>
  is first replaced by the current time). Changing one parameter changes the bytes that
  are hashed whenever it changes the rendering of that parameter, so the two keys differ
  unless the truncated digests of two different byte strings collide; parameters with
  the same renderings, such as Qibla coordinates that agree when rounded to four
  decimals, have the same key.
\<close>

theorem cache_key_fingerprint:
  "(\<not> IsZero (Date p) \<longrightarrow>
      times_key lib p now = times_key lib p now' \<and>
      addr_key lib p now = addr_key lib p now') \<and>
   (fmt_v lib a \<noteq> fmt_v lib a' \<longrightarrow>
      key_material lib (xs @ a # ys) \<noteq> key_material lib (xs @ a' # ys)) \<and>
   (fmt_v lib a \<noteq> fmt_v lib a' \<and>
    GenerateKey lib (xs @ a # ys) = GenerateKey lib (xs @ a' # ys) \<longrightarrow>
      (\<exists>s t. s \<noteq> t \<and> take 16 (sha256_hex lib s) = take 16 (sha256_hex lib t))) \<and>
   (map (fmt_v lib) ps = map (fmt_v lib) ps' \<longrightarrow> GenerateKey lib ps = GenerateKey lib ps') \<and>
   (sprintf_4f latitude = sprintf_4f latitude' \<and>
    sprintf_4f longitude = sprintf_4f longitude' \<longrightarrow>
      qibla_key lib latitude longitude = qibla_key lib latitude' longitude')"
proof -
  have clock: "times_key lib p now = times_key lib p now' \<and>
      addr_key lib p now = addr_key lib p now'" if "\<not> IsZero (Date p)"
    using that by (simp add: times_key_def addr_key_def GetDateString_date_set)
  have material: "key_material lib (xs @ a # ys) \<noteq> key_material lib (xs @ a' # ys)"
    if "fmt_v lib a \<noteq> fmt_v lib a'"
    using that by (simp add: key_material_split)
  have collide: "\<exists>s t. s \<noteq> t \<and> take 16 (sha256_hex lib s) = take 16 (sha256_hex lib t)"
    if "fmt_v lib a \<noteq> fmt_v lib a'"
      and "GenerateKey lib (xs @ a # ys) = GenerateKey lib (xs @ a' # ys)"
    using material [OF that(1)] that(2) unfolding GenerateKey_def by blast
  have same: "GenerateKey lib ps = GenerateKey lib ps'"
    if "map (fmt_v lib) ps = map (fmt_v lib) ps'"
    using that by (simp add: GenerateKey_def key_material_def)
  have qibla: "qibla_key lib latitude longitude = qibla_key lib latitude' longitude'"
    if "sprintf_4f latitude = sprintf_4f latitude' \<and> sprintf_4f longitude = sprintf_4f longitude'"
    using that by (simp add: qibla_key_def)
  show ?thesis
    using clock material collide same qibla by blast
qed

lemma sprintf_4f_lat_30_5: "sprintf_4f lat_30_5 = ''30.5000''"
  by (simp add: lat_30_5_def sprintf_4f_def round_half_even_def Let_def digits10.simps)

lemma sprintf_4f_lat_nearby: "sprintf_4f lat_nearby = ''30.5000''"
  by (simp add: lat_nearby_def sprintf_4f_def round_half_even_def Let_def digits10.simps)

theorem cache_key_fingerprint_witness:
  "\<forall>lib.
     times_key lib (params_no_date\<lparr>Date := jan_15_2024\<rparr>) jan_15_2024 =
       times_key lib (params_no_date\<lparr>Date := jan_15_2024\<rparr>) mar_1_2024 \<and>
     key_material lib [PString ''addr'', PString ''Cairo'', PString ''15-01-2024'', PInt 5] \<noteq>
       key_material lib [PString ''addr'', PString ''Cairo'', PString ''15-01-2024'', PInt 4] \<and>
     key_material lib [PString ''addr'', PString ''Cairo'', PString ''15-01-2024'', PInt 5] \<noteq>
       key_material lib [PString ''addr'', PString ''Cairo'', PString ''16-01-2024'', PInt 5] \<and>
     qibla_key lib lat_30_5 lon_31_25 = qibla_key lib lat_nearby lon_31_25"
proof
  fix lib
  let ?p = "params_no_date\<lparr>Date := jan_15_2024\<rparr>"
  have set: "\<not> IsZero (Date ?p)"
    by (simp add: IsZero_def jan_15_2024_def)
  have by_method: "fmt_v lib (PInt 5) \<noteq> fmt_v lib (PInt 4)"
    by (simp add: digits10.simps)
  have day: "fmt_v lib (PString ''15-01-2024'') \<noteq> fmt_v lib (PString ''16-01-2024'')"
    by simp
  have near: "sprintf_4f lat_30_5 = sprintf_4f lat_nearby \<and>
      sprintf_4f lon_31_25 = sprintf_4f lon_31_25"
    by (simp add: sprintf_4f_lat_30_5 sprintf_4f_lat_nearby)
  from cache_key_fingerprint [of ?p lib jan_15_2024 mar_1_2024] set
  have 1: "times_key lib ?p jan_15_2024 = times_key lib ?p mar_1_2024"
    by blast
  from cache_key_fingerprint [of _ lib _ _ "PInt 5" "PInt 4"
      "[PString ''addr'', PString ''Cairo'', PString ''15-01-2024'']" "[]"] by_method
  have 2: "key_material lib [PString ''addr'', PString ''Cairo'', PString ''15-01-2024'', PInt 5] \<noteq>
       key_material lib [PString ''addr'', PString ''Cairo'', PString ''15-01-2024'', PInt 4]"
    by simp
  from cache_key_fingerprint [of _ lib _ _ "PString ''15-01-2024''" "PString ''16-01-2024''"
      "[PString ''addr'', PString ''Cairo'']" "[PInt 5]"] day
  have 3: "key_material lib [PString ''addr'', PString ''Cairo'', PString ''15-01-2024'', PInt 5] \<noteq>
       key_material lib [PString ''addr'', PString ''Cairo'', PString ''16-01-2024'', PInt 5]"
    by simp
  from cache_key_fingerprint [of _ lib _ _ _ _ _ _ _ _ lat_30_5 lat_nearby
      lon_31_25 lon_31_25] near
  have 4: "qibla_key lib lat_30_5 lon_31_25 = qibla_key lib lat_nearby lon_31_25"
    by blast
  show "times_key lib ?p jan_15_2024 = times_key lib ?p mar_1_2024 \<and>
     key_material lib [PString ''addr'', PString ''Cairo'', PString ''15-01-2024'', PInt 5] \<noteq>
       key_material lib [PString ''addr'', PString ''Cairo'', PString ''15-01-2024'', PInt 4] \<and>
     key_material lib [PString ''addr'', PString ''Cairo'', PString ''15-01-2024'', PInt 5] \<noteq>
       key_material lib [PString ''addr'', PString ''Cairo'', PString ''16-01-2024'', PInt 5] \<and>
     qibla_key lib lat_30_5 lon_31_25 = qibla_key lib lat_nearby lon_31_25"
    by (intro conjI 1 2 3 4)
qed

text \<open>
  The claim as stated, that changing any one parameter changes the key, fails for the
  Qibla key: the coordinates are rendered with \<^verbatim>\<open>%.4f\<close>, and the latitudes 30.5 and
  30.5 + 1/65536 (both exact \<^verbatim>\<open>float64\<close> values) are both rendered \<^verbatim>\<open>30.5000\<close>: the two
  requests have the same key, whatever the hash function is. And the date that enters
  the key is not always the explicit parameter: for parameters whose \<^verbatim>\<open>Date\<close> is the
  zero time it is the day the clock shows when the key is computed.
\<close>

theorem qibla_key_counterexample:
  "lat_30_5 \<noteq> lat_nearby \<and>
   sprintf_4f lat_30_5 = ''30.5000'' \<and>
   sprintf_4f lat_nearby = ''30.5000'' \<and>
   (\<forall>lib. qibla_key lib lat_30_5 lon_31_25 = qibla_key lib lat_nearby lon_31_25) \<and>
   IsZero (Date params_no_date) \<and>
   fst (GetDateString params_no_date jan_15_2024) = ''15-01-2024'' \<and>
   fst (GetDateString params_no_date mar_1_2024) = ''01-03-2024''"
proof -
  have coords: "lat_30_5 \<noteq> lat_nearby"
    by (simp add: lat_30_5_def lat_nearby_def)
  have keys: "\<forall>lib. qibla_key lib lat_30_5 lon_31_25 = qibla_key lib lat_nearby lon_31_25"
    by (simp add: qibla_key_def sprintf_4f_lat_30_5 sprintf_4f_lat_nearby)
  have z: "IsZero (Date params_no_date)"
    by (simp add: IsZero_def params_no_date_def)
  have jan: "fst (GetDateString params_no_date jan_15_2024) = ''15-01-2024''"
    using z by (simp add: GetDateString_zero Format_jan_15_2024)
  have mar: "fst (GetDateString params_no_date mar_1_2024) = ''01-03-2024''"
    using z by (simp add: GetDateString_zero Format_mar_1_2024)
  show ?thesis
    by (intro conjI coords sprintf_4f_lat_30_5 sprintf_4f_lat_nearby keys z jan mar)
qed

section \<open>The IP detector\<close>

lemma IsValid_stamp: "IsValid (loc\<lparr>Source := s, DetectedAt := t\<rparr>) = IsValid loc"
  by (simp add: IsValid_def)

lemma accepted_Inr: "accepted r \<Longrightarrow> \<exists>loc. r = Inr loc \<and> IsValid loc"
  by (cases r) (simp_all add: accepted_def)

text \<open>
  Claim C3. \<^verbatim>\<open>DetectFromIP\<close> tries ip-api.com, then ipinfo.io, then ipapi.co. It
  returns the result of the first provider that yields a location without error that
  satisfies \<^verbatim>\<open>IsValid\<close>, with \<^verbatim>\<open>Source\<close> set to \<^verbatim>\<open>ip\<close> and \<^verbatim>\<open>DetectedAt\<close> to the
  current time, and has then tried the providers up to that one and none beyond. When
  no provider yields such a location it returns the one error "all services failed"
  and no location. A location it returns is always valid and stamped.
\<close>

theorem DetectFromIP_fallback:
  "(accepted (detectFromIPAPI lib http) \<longrightarrow>
      DetectFromIP lib http now =
        (Inr ((projr (detectFromIPAPI lib http))\<lparr>Source := ''ip'', DetectedAt := now\<rparr>),
         [IPAPIEndpoint])) \<and>
   (\<not> accepted (detectFromIPAPI lib http) \<and> accepted (detectFromIPInfo lib http) \<longrightarrow>
      DetectFromIP lib http now =
        (Inr ((projr (detectFromIPInfo lib http))\<lparr>Source := ''ip'', DetectedAt := now\<rparr>),
         [IPAPIEndpoint, IPInfoEndpoint])) \<and>
   (\<not> accepted (detectFromIPAPI lib http) \<and> \<not> accepted (detectFromIPInfo lib http) \<and>
    accepted (detectFromIPAPICo lib http) \<longrightarrow>
      DetectFromIP lib http now =
        (Inr ((projr (detectFromIPAPICo lib http))\<lparr>Source := ''ip'', DetectedAt := now\<rparr>),
         [IPAPIEndpoint, IPInfoEndpoint, IPAPICoEndpoint])) \<and>
   (\<not> accepted (detectFromIPAPI lib http) \<and> \<not> accepted (detectFromIPInfo lib http) \<and>
    \<not> accepted (detectFromIPAPICo lib http) \<longrightarrow>
      DetectFromIP lib http now =
        (Inl (Plain ''failed to detect location from IP: all services failed''),
         [IPAPIEndpoint, IPInfoEndpoint, IPAPICoEndpoint])) \<and>
   (\<forall>loc. fst (DetectFromIP lib http now) = Inr loc \<longrightarrow>
      IsValid loc \<and> Source loc = ''ip'' \<and> DetectedAt loc = now)"
proof -
  have stamped: "IsValid loc \<and> Source loc = ''ip'' \<and> DetectedAt loc = now"
    if "fst (DetectFromIP lib http now) = Inr loc" for loc
    using that
    by (auto simp: DetectFromIP_def IsValid_stamp split: sum.splits if_splits option.splits)
  have cases: "(accepted (detectFromIPAPI lib http) \<longrightarrow>
      DetectFromIP lib http now =
        (Inr ((projr (detectFromIPAPI lib http))\<lparr>Source := ''ip'', DetectedAt := now\<rparr>),
         [IPAPIEndpoint])) \<and>
   (\<not> accepted (detectFromIPAPI lib http) \<and> accepted (detectFromIPInfo lib http) \<longrightarrow>
      DetectFromIP lib http now =
        (Inr ((projr (detectFromIPInfo lib http))\<lparr>Source := ''ip'', DetectedAt := now\<rparr>),
         [IPAPIEndpoint, IPInfoEndpoint])) \<and>
   (\<not> accepted (detectFromIPAPI lib http) \<and> \<not> accepted (detectFromIPInfo lib http) \<and>
    accepted (detectFromIPAPICo lib http) \<longrightarrow>
      DetectFromIP lib http now =
        (Inr ((projr (detectFromIPAPICo lib http))\<lparr>Source := ''ip'', DetectedAt := now\<rparr>),
         [IPAPIEndpoint, IPInfoEndpoint, IPAPICoEndpoint])) \<and>
   (\<not> accepted (detectFromIPAPI lib http) \<and> \<not> accepted (detectFromIPInfo lib http) \<and>
    \<not> accepted (detectFromIPAPICo lib http) \<longrightarrow>
      DetectFromIP lib http now =
        (Inl (Plain ''failed to detect location from IP: all services failed''),
         [IPAPIEndpoint, IPInfoEndpoint, IPAPICoEndpoint]))"
    by (cases "detectFromIPAPI lib http"; cases "detectFromIPInfo lib http";
        cases "detectFromIPAPICo lib http")
       (simp_all add: DetectFromIP_def accepted_def)
  show ?thesis using cases stamped by blast
qed

lemma third_provider_results:
  "detectFromIPAPI toy_geo_lib third_provider_net =
     Inl (Wrapped ''failed to parse ip-api.com response'' (Transport ''invalid character''))"
  "detectFromIPInfo toy_geo_lib third_provider_net =
     Inr \<lparr>loc_Address = '''', loc_Latitude = 0, loc_Longitude = 0, City = '''', Country = '''',
          CountryCode = '''', loc_Timezone = '''', DetectedAt = zero_time, Source = ''''\<rparr>"
  "detectFromIPAPICo toy_geo_lib third_provider_net =
     Inr \<lparr>loc_Address = ''Cairo, Egypt'', loc_Latitude = 30.04, loc_Longitude = 31.23,
          City = ''Cairo'', Country = ''Egypt'', CountryCode = ''EG'',
          loc_Timezone = ''Africa/Cairo'', DetectedAt = zero_time, Source = ''''\<rparr>"
  by (simp_all add: detectFromIPAPI_def detectFromIPInfo_def detectFromIPAPICo_def
      Detector_doRequest_def third_provider_net_def toy_geo_lib_def IPAPIEndpoint_def
      IPInfoEndpoint_def IPAPICoEndpoint_def parseLatLon_def TrimSpace_def is_space_def
      formatAddress_def)

theorem DetectFromIP_fallback_witness:
  "DetectFromIP toy_geo_lib third_provider_net jan_15_2024 =
     (Inr \<lparr>loc_Address = ''Cairo, Egypt'', loc_Latitude = 30.04, loc_Longitude = 31.23,
           City = ''Cairo'', Country = ''Egypt'', CountryCode = ''EG'',
           loc_Timezone = ''Africa/Cairo'', DetectedAt = jan_15_2024, Source = ''ip''\<rparr>,
      [IPAPIEndpoint, IPInfoEndpoint, IPAPICoEndpoint]) \<and>
   DetectFromIP toy_geo_lib no_net jan_15_2024 =
     (Inl (Plain ''failed to detect location from IP: all services failed''),
      [IPAPIEndpoint, IPInfoEndpoint, IPAPICoEndpoint])"
proof -
  have 1: "\<not> accepted (detectFromIPAPI toy_geo_lib third_provider_net)"
    and 2: "\<not> accepted (detectFromIPInfo toy_geo_lib third_provider_net)"
    and 3: "accepted (detectFromIPAPICo toy_geo_lib third_provider_net)"
    by (simp_all add: third_provider_results accepted_def IsValid_def)
  have none: "\<not> accepted (detectFromIPAPI toy_geo_lib no_net)"
    "\<not> accepted (detectFromIPInfo toy_geo_lib no_net)"
    "\<not> accepted (detectFromIPAPICo toy_geo_lib no_net)"
    by (simp_all add: detectFromIPAPI_def detectFromIPInfo_def detectFromIPAPICo_def
        Detector_doRequest_def no_net_def accepted_def)
  from DetectFromIP_fallback [of toy_geo_lib third_provider_net jan_15_2024] 1 2 3
  have a: "DetectFromIP toy_geo_lib third_provider_net jan_15_2024 =
      (Inr ((projr (detectFromIPAPICo toy_geo_lib third_provider_net))
              \<lparr>Source := ''ip'', DetectedAt := jan_15_2024\<rparr>),
       [IPAPIEndpoint, IPInfoEndpoint, IPAPICoEndpoint])"
    by blast
  from DetectFromIP_fallback [of toy_geo_lib no_net jan_15_2024] none
  have b: "DetectFromIP toy_geo_lib no_net jan_15_2024 =
     (Inl (Plain ''failed to detect location from IP: all services failed''),
      [IPAPIEndpoint, IPInfoEndpoint, IPAPICoEndpoint])"
    by blast
  show ?thesis
    using a b by (simp add: third_provider_results)
qed

end
